theory Spec2Isabelle
  imports Main "HOL-Library.AList" "HOL-Library.Sublist"
begin

section \<open>Python values, dictionaries and exceptions\<close>

text \<open>
  The program under study is \<^verbatim>\<open>main.py\<close>, a launcher for the xqemu emulator. Its two
  components with behaviour of their own are \<^verbatim>\<open>SettingsManager\<close> (a dictionary of settings
  with reset, save and load) and \<^verbatim>\<open>Xqemu\<close> (start, stop, isRunning).

  A setting is a Python \<^verbatim>\<open>str\<close> or a Python \<^verbatim>\<open>bool\<close>: these are the two types that
  \<^verbatim>\<open>reset\<close> stores and that the settings form writes (\<^verbatim>\<open>widget.text()\<close>,
  \<^verbatim>\<open>widget.isChecked()\<close>). A character is a code point below 256. A dictionary is an
  association list in insertion order, read with \<^const>\<open>map_of\<close>.
\<close>

datatype pyval = PStr string | PBool bool

type_synonym pydict = "(string \<times> pyval) list"

datatype error =
    KeyError string
  | TypeError
  | IndexError
  | Exception string
  | OSError
  | ValueError

text \<open>Sequencing of a step that may raise with the rest of the function body.\<close>

definition andthen :: "error + 'a \<Rightarrow> ('a \<Rightarrow> error + 'b) \<Rightarrow> error + 'b" where
  "andthen m f = (case m of Inl e \<Rightarrow> Inl e | Inr v \<Rightarrow> f v)"

text \<open>\<^verbatim>\<open>d[k]\<close>: a missing key raises KeyError.\<close>

definition getitem :: "pydict \<Rightarrow> string \<Rightarrow> error + pyval" where
  "getitem d k = (case map_of d k of None \<Rightarrow> Inl (KeyError k) | Some v \<Rightarrow> Inr v)"

text \<open>\<^verbatim>\<open>str(v)\<close>, which is what \<^verbatim>\<open>%s\<close> and \<^verbatim>\<open>%(name)s\<close> interpolate.\<close>

fun py_str :: "pyval \<Rightarrow> string" where
  "py_str (PStr s) = s"
| "py_str (PBool True) = ''True''"
| "py_str (PBool False) = ''False''"

text \<open>Truth value of a setting in a condition: the empty string is false.\<close>

fun truthy :: "pyval \<Rightarrow> bool" where
  "truthy (PStr s) = (s \<noteq> [])"
| "truthy (PBool b) = b"

text \<open>\<^verbatim>\<open>s + v\<close> for a \<^verbatim>\<open>str\<close> on the left: only a \<^verbatim>\<open>str\<close> can be concatenated to it.\<close>

fun str_add :: "string \<Rightarrow> pyval \<Rightarrow> error + string" where
  "str_add s (PStr t) = Inr (s @ t)"
| "str_add s (PBool b) = Inl TypeError"

section \<open>The environment: file system and processes\<close>

text \<open>
  What the operating system contributes. \<open>files\<close> is what \<^verbatim>\<open>os.stat\<close> finds for its
  argument: a string is a path; a \<^verbatim>\<open>bool\<close> is an \<^verbatim>\<open>int\<close> in Python and \<^verbatim>\<open>os.stat\<close> takes it
  as an open file descriptor (\<^verbatim>\<open>False\<close> is 0, \<^verbatim>\<open>True\<close> is 1). \<open>readable\<close> and \<open>writable\<close> say
  whether \<^verbatim>\<open>open\<close> succeeds on a path in mode \<^verbatim>\<open>'r'\<close> and \<^verbatim>\<open>'w'\<close>, \<open>launchable\<close> whether the
  system can create a process from a program name. \<open>procs\<close> is the table of the child
  processes created so far; a process handle is an index into it.
\<close>

datatype node = Dir | File string

record process =
  argv :: "string list"
  signalled :: bool

record world =
  files :: "pyval \<rightharpoonup> node"
  readable :: "string \<Rightarrow> bool"
  writable :: "string \<Rightarrow> bool"
  launchable :: "string \<Rightarrow> bool"
  procs :: "process list"

definition path_exists :: "world \<Rightarrow> pyval \<Rightarrow> bool" where
  "path_exists w path = (files w path \<noteq> None)"

definition path_isdir :: "world \<Rightarrow> pyval \<Rightarrow> bool" where
  "path_isdir w path = (files w path = Some Dir)"

text \<open>\<^verbatim>\<open>subprocess.Popen(args)\<close>: the new process is appended to the table.\<close>

definition Popen :: "string list \<Rightarrow> world \<Rightarrow> error + (nat \<times> world)" where
  "Popen args w =
     (case args of
        [] \<Rightarrow> Inl IndexError
      | prog # _ \<Rightarrow>
          if launchable w prog
          then Inr (length (procs w),
                    w\<lparr>procs := procs w @ [\<lparr>argv = args, signalled = False\<rparr>]\<rparr>)
          else Inl OSError)"

text \<open>\<^verbatim>\<open>Popen.terminate()\<close>: the process is sent the termination signal.\<close>

definition terminate :: "nat \<Rightarrow> world \<Rightarrow> world" where
  "terminate h w =
     (if h < length (procs w)
      then w\<lparr>procs := (procs w)[h := (procs w ! h)\<lparr>signalled := True\<rparr>]\<rparr>
      else w)"

section \<open>Splitting a command line\<close>

text \<open>
  \<^verbatim>\<open>str.split()\<close> without arguments: the maximal runs of characters that are not
  white space. The white space of \<^verbatim>\<open>str.isspace\<close> below code point 256 is 9 to 13, 28 to
  32, 133 and 160.
\<close>

definition is_space :: "char \<Rightarrow> bool" where
  "is_space c =
     (let n = (of_char c :: nat)
      in (9 \<le> n \<and> n \<le> 13) \<or> (28 \<le> n \<and> n \<le> 32) \<or> n = 133 \<or> n = 160)"

function split :: "string \<Rightarrow> string list" where
  "split [] = []"
| "split (c # cs) =
     (if is_space c then split cs
      else takeWhile (\<lambda>x. \<not> is_space x) (c # cs)
           # split (dropWhile (\<lambda>x. \<not> is_space x) cs))"
  by pat_completeness auto
termination
  by (relation "measure length") (auto simp: length_dropWhile_le less_Suc_eq_le)

section \<open>JSON text\<close>

text \<open>\<^verbatim>\<open>sep.join(items)\<close>.\<close>

fun join :: "string \<Rightarrow> string list \<Rightarrow> string" where
  "join sep [] = []"
| "join sep [x] = x"
| "join sep (x # y # ys) = x @ sep @ join sep (y # ys)"

text \<open>
  \<^verbatim>\<open>json.dumps(d, indent=2)\<close> on a dictionary of strings and booleans. A string is written
  between double quotes; the quote and the backslash are escaped, the control characters
  with a short escape get it, and every other character outside the printable ASCII range
  is written \<^verbatim>\<open>\u00XX\<close> with lower-case digits.
\<close>

definition hex_digit :: "nat \<Rightarrow> char" where
  "hex_digit n = ''0123456789abcdef'' ! (n mod 16)"

definition escape_char :: "char \<Rightarrow> string" where
  "escape_char c =
     (if c = CHR 0x22 then [CHR 0x5C, CHR 0x22]
      else if c = CHR 0x5C then [CHR 0x5C, CHR 0x5C]
      else if c = CHR 0x0A then [CHR 0x5C, CHR ''n'']
      else if c = CHR 0x0D then [CHR 0x5C, CHR ''r'']
      else if c = CHR 0x09 then [CHR 0x5C, CHR ''t'']
      else if c = CHR 0x08 then [CHR 0x5C, CHR ''b'']
      else if c = CHR 0x0C then [CHR 0x5C, CHR ''f'']
      else if 0x20 \<le> (of_char c :: nat) \<and> (of_char c :: nat) \<le> 0x7E then [c]
      else [CHR 0x5C, CHR ''u'', CHR ''0'', CHR ''0'',
            hex_digit ((of_char c :: nat) div 16), hex_digit (of_char c :: nat)])"

definition encode_string :: "string \<Rightarrow> string" where
  "encode_string s = CHR 0x22 # concat (map escape_char s) @ [CHR 0x22]"

fun encode_value :: "pyval \<Rightarrow> string" where
  "encode_value (PStr s) = encode_string s"
| "encode_value (PBool True) = ''true''"
| "encode_value (PBool False) = ''false''"

definition encode_item :: "string \<times> pyval \<Rightarrow> string" where
  "encode_item kv = ''  '' @ encode_string (fst kv) @ '': '' @ encode_value (snd kv)"

definition json_dumps :: "pydict \<Rightarrow> string" where
  "json_dumps d =
     (if d = [] then ''{}''
      else ''{'' @ [CHR 0x0A] @ join ('','' @ [CHR 0x0A]) (map encode_item d)
           @ [CHR 0x0A] @ ''}'')"

text \<open>
  \<^verbatim>\<open>json.loads(s)\<close> on the documents that denote a dictionary of strings and booleans: one
  object whose values are strings, \<^verbatim>\<open>true\<close> or \<^verbatim>\<open>false\<close>, with the white space JSON allows.
  A \<^verbatim>\<open>\uXXXX\<close> escape is decoded when its code point is below 256. Every other text is
  answered with \<^const>\<open>ValueError\<close>, which is Python's answer to a malformed document; a
  well-formed document of another shape (numbers, \<^verbatim>\<open>null\<close>, arrays, nested objects) has no
  value of type \<^typ>\<open>pydict\<close> and is outside this development.
\<close>

definition is_json_ws :: "char \<Rightarrow> bool" where
  "is_json_ws c = (c = CHR '' '' \<or> c = CHR 0x09 \<or> c = CHR 0x0A \<or> c = CHR 0x0D)"

definition skip_ws :: "string \<Rightarrow> string" where
  "skip_ws s = dropWhile is_json_ws s"

definition hex_val :: "char \<Rightarrow> nat option" where
  "hex_val c =
     (let n = (of_char c :: nat)
      in if 48 \<le> n \<and> n \<le> 57 then Some (n - 48)
         else if 97 \<le> n \<and> n \<le> 102 then Some (n - 87)
         else if 65 \<le> n \<and> n \<le> 70 then Some (n - 55)
         else None)"

definition hex4 :: "char \<Rightarrow> char \<Rightarrow> char \<Rightarrow> char \<Rightarrow> nat option" where
  "hex4 a b c d =
     (case (hex_val a, hex_val b, hex_val c, hex_val d) of
        (Some i, Some j, Some k, Some l) \<Rightarrow> Some (((i * 16 + j) * 16 + k) * 16 + l)
      | _ \<Rightarrow> None)"

definition unescape :: "char \<Rightarrow> char option" where
  "unescape e =
     (if e = CHR 0x22 then Some (CHR 0x22)
      else if e = CHR 0x5C then Some (CHR 0x5C)
      else if e = CHR ''/'' then Some (CHR ''/'')
      else if e = CHR ''b'' then Some (CHR 0x08)
      else if e = CHR ''f'' then Some (CHR 0x0C)
      else if e = CHR ''n'' then Some (CHR 0x0A)
      else if e = CHR ''r'' then Some (CHR 0x0D)
      else if e = CHR ''t'' then Some (CHR 0x09)
      else None)"

definition cons_fst :: "'a \<Rightarrow> ('a list \<times> 'b) option \<Rightarrow> ('a list \<times> 'b) option" where
  "cons_fst x r = map_option (\<lambda>(xs, rest). (x # xs, rest)) r"

text \<open>
  The scanner of a string, started after the opening quote: the decoded string and the
  text after the closing quote. A raw control character inside a string is refused.
\<close>

fun scanstring :: "string \<Rightarrow> (string \<times> string) option" where
  "scanstring [] = None"
| "scanstring (c # cs) =
     (if c = CHR 0x22 then Some ([], cs)
      else if c = CHR 0x5C then
        (case cs of
           [] \<Rightarrow> None
         | e # r \<Rightarrow>
             if e = CHR ''u'' then
               (case r of
                  h1 # h2 # h3 # h4 # r' \<Rightarrow>
                    (case hex4 h1 h2 h3 h4 of
                       None \<Rightarrow> None
                     | Some n \<Rightarrow> if n < 256 then cons_fst (char_of n) (scanstring r') else None)
                | _ \<Rightarrow> None)
             else
               (case unescape e of
                  None \<Rightarrow> None
                | Some x \<Rightarrow> cons_fst x (scanstring r)))
      else if (of_char c :: nat) < 0x20 then None
      else cons_fst c (scanstring cs))"

definition parse_value :: "string \<Rightarrow> (pyval \<times> string) option" where
  "parse_value s =
     (case s of
        [] \<Rightarrow> None
      | c # cs \<Rightarrow>
          if c = CHR 0x22 then map_option (\<lambda>(t, rest). (PStr t, rest)) (scanstring cs)
          else if take 4 s = ''true'' then Some (PBool True, drop 4 s)
          else if take 5 s = ''false'' then Some (PBool False, drop 5 s)
          else None)"

text \<open>
  The members of an object, started after the opening quote of the first key: the pairs
  in the order of the text, and the text after the closing brace.
\<close>

function parse_pairs :: "string \<Rightarrow> ((string \<times> pyval) list \<times> string) option" where
  "parse_pairs s =
     (case scanstring s of
        None \<Rightarrow> None
      | Some (key, r1) \<Rightarrow>
          (case skip_ws r1 of
             [] \<Rightarrow> None
           | c # r2 \<Rightarrow>
               if c \<noteq> CHR '':'' then None
               else
                 (case parse_value (skip_ws r2) of
                    None \<Rightarrow> None
                  | Some (v, r3) \<Rightarrow>
                      (case skip_ws r3 of
                         [] \<Rightarrow> None
                       | d # r4 \<Rightarrow>
                           if d = CHR ''}'' then Some ([(key, v)], r4)
                           else if d = CHR '','' then
                             (case skip_ws r4 of
                                [] \<Rightarrow> None
                              | q # r5 \<Rightarrow>
                                  if q = CHR 0x22 then cons_fst (key, v) (parse_pairs r5)
                                  else None)
                           else None))))"
  by pat_completeness auto
termination
proof (relation "measure length", simp, goal_cases)
  case (1 s x2 key r1 c r2 x2a v r3 d r4 q r5)
  have scan: "scanstring u = Some (t, r) \<Longrightarrow> length r < length u" for u t r
  proof (induction u arbitrary: t r rule: scanstring.induct)
    case 1
    then show ?case by simp
  next
    case (2 c cs)
    then show ?case
      by (fastforce simp: cons_fst_def split: if_splits list.splits option.splits)
  qed
  have val: "parse_value u = Some (x, r) \<Longrightarrow> length r < length u" for u x r
    by (cases u) (auto simp: parse_value_def dest!: scan split: if_splits)
  have ws: "length (skip_ws u) \<le> length u" for u
    by (simp add: skip_ws_def length_dropWhile_le)
  have "length r1 < length s"
    using 1 scan by metis
  moreover have "length r2 < length (skip_ws r1)"
    using 1 by simp
  moreover have "length r3 < length (skip_ws r2)"
    using 1 val by metis
  moreover have "length r4 < length (skip_ws r3)"
    using 1 by simp
  moreover have "length r5 < length (skip_ws r4)"
    using 1 by simp
  ultimately show ?case
    using ws [of r1] ws [of r2] ws [of r3] ws [of r4] by simp
qed

text \<open>\<^verbatim>\<open>dict(pairs)\<close>: a later pair with the same key replaces the value of the earlier one.\<close>

definition dict :: "(string \<times> pyval) list \<Rightarrow> pydict" where
  "dict ps = foldl (\<lambda>d kv. AList.update (fst kv) (snd kv) d) [] ps"

definition json_loads :: "string \<Rightarrow> error + pydict" where
  "json_loads s =
     (case skip_ws s of
        [] \<Rightarrow> Inl ValueError
      | c # r \<Rightarrow>
          if c \<noteq> CHR ''{'' then Inl ValueError
          else
            (case skip_ws r of
               [] \<Rightarrow> Inl ValueError
             | d # r' \<Rightarrow>
                 if d = CHR ''}'' then (if skip_ws r' = [] then Inr [] else Inl ValueError)
                 else if d = CHR 0x22 then
                   (case parse_pairs r' of
                      None \<Rightarrow> Inl ValueError
                    | Some (ps, rest) \<Rightarrow>
                        if skip_ws rest = [] then Inr (dict ps) else Inl ValueError)
                 else Inl ValueError))"

section \<open>The settings store\<close>

definition SETTINGS_FILE :: string where
  "SETTINGS_FILE = ''./settings.json''"

text \<open>Class \<^verbatim>\<open>SettingsManager\<close> has one attribute, the dictionary \<^verbatim>\<open>settings\<close>.\<close>

record SettingsManager =
  settings :: pydict

definition reset :: "SettingsManager \<Rightarrow> SettingsManager" where
  "reset self = self\<lparr>settings :=
     [(''xqemu_path'', PStr ''/path/to/xqemu''),
      (''mcpx_path'', PStr ''/path/to/mcpx.bin''),
      (''flash_path'', PStr ''/path/to/flash.bin''),
      (''hdd_path'', PStr ''/path/to/hdd.img''),
      (''hdd_locked'', PBool True),
      (''dvd_present'', PBool True),
      (''dvd_path'', PStr ''/path/to/disc.iso''),
      (''short_anim'', PBool False)]\<rparr>"

text \<open>The constructor calls \<^verbatim>\<open>reset\<close>.\<close>

definition SettingsManager_init :: SettingsManager where
  "SettingsManager_init = reset \<lparr>settings = []\<rparr>"

text \<open>
  \<^verbatim>\<open>open(path, 'w')\<close> followed by one \<^verbatim>\<open>write\<close>, and \<^verbatim>\<open>open(path, 'r')\<close> followed by
  \<^verbatim>\<open>read\<close>. Opening a directory fails in both modes.
\<close>

definition open_write :: "string \<Rightarrow> string \<Rightarrow> world \<Rightarrow> error + world" where
  "open_write path d w =
     (if files w (PStr path) = Some Dir \<or> \<not> writable w path then Inl OSError
      else Inr (w\<lparr>files := (files w)(PStr path \<mapsto> File d)\<rparr>))"

definition open_read :: "string \<Rightarrow> world \<Rightarrow> error + string" where
  "open_read path w =
     (case files w (PStr path) of
        Some (File d) \<Rightarrow> if readable w path then Inr d else Inl OSError
      | _ \<Rightarrow> Inl OSError)"

definition save :: "SettingsManager \<Rightarrow> world \<Rightarrow> error option \<times> world" where
  "save self w =
     (case open_write SETTINGS_FILE (json_dumps (settings self)) w of
        Inl e \<Rightarrow> (Some e, w)
      | Inr w' \<Rightarrow> (None, w'))"

definition load :: "SettingsManager \<Rightarrow> world \<Rightarrow> error option \<times> SettingsManager" where
  "load self w =
     (if path_exists w (PStr SETTINGS_FILE)
      then (case open_read SETTINGS_FILE w of
              Inl e \<Rightarrow> (Some e, self)
            | Inr d \<Rightarrow>
                (case json_loads d of
                   Inl e \<Rightarrow> (Some e, self)
                 | Inr v \<Rightarrow> (None, self\<lparr>settings := v\<rparr>)))
      else (None, reset self))"

section \<open>The process controller\<close>

text \<open>Class \<^verbatim>\<open>Xqemu\<close> has one attribute, \<^verbatim>\<open>_p\<close>: \<^verbatim>\<open>None\<close> or the handle of a process.\<close>

record Xqemu =
  p_handle :: "nat option"

definition Xqemu_init :: Xqemu where
  "Xqemu_init = \<lparr>p_handle = None\<rparr>"

text \<open>The local function \<^verbatim>\<open>check_path\<close> of \<^verbatim>\<open>start\<close>.\<close>

definition check_path :: "world \<Rightarrow> pyval \<Rightarrow> error + unit" where
  "check_path w path =
     (if \<not> path_exists w path \<or> path_isdir w path
      then Inl (Exception (''File '' @ py_str path @ '' could not be found!''))
      else Inr ())"

text \<open>
  The template of the command line. In the source every line of the literal ends in a
  space and a backslash and the next one starts with three tabs, which are part of the
  string.
\<close>

definition tabs :: string where
  "tabs = [CHR 0x09, CHR 0x09, CHR 0x09]"

definition cmd_template :: "string \<Rightarrow> string \<Rightarrow> string \<Rightarrow> string \<Rightarrow> string \<Rightarrow> string \<Rightarrow> string" where
  "cmd_template xqemu_path mcpx_path short_anim_arg flash_path hdd_path dvd_path_arg =
     xqemu_path @ '' '' @ tabs @
     ''-cpu pentium3 '' @ tabs @
     ''-machine xbox,bootrom='' @ mcpx_path @ short_anim_arg @ '' -m 64 '' @ tabs @
     ''-bios '' @ flash_path @ '' '' @ tabs @
     ''-net nic,model=nvnet -net user '' @ tabs @
     ''-monitor stdio '' @ tabs @
     ''-drive file='' @ hdd_path @ '',index=0,media=disk '' @ tabs @
     ''-drive index=1,media=cdrom'' @ dvd_path_arg"

text \<open>
  The body of \<^verbatim>\<open>start\<close> up to the assignment of \<^verbatim>\<open>cmd\<close>: the look-ups, the path
  checks and the formatting, in the order of the source. Nothing is written in this part.
\<close>

definition start_cmd :: "SettingsManager \<Rightarrow> world \<Rightarrow> error + string" where
  "start_cmd s w =
     andthen (getitem (settings s) ''xqemu_path'') (\<lambda>xqemu_path.
     andthen (check_path w xqemu_path) (\<lambda>_.
     andthen (getitem (settings s) ''mcpx_path'') (\<lambda>mcpx_path.
     andthen (check_path w mcpx_path) (\<lambda>_.
     andthen (getitem (settings s) ''flash_path'') (\<lambda>flash_path.
     andthen (check_path w flash_path) (\<lambda>_.
     andthen (getitem (settings s) ''hdd_path'') (\<lambda>hdd_path.
     andthen (check_path w hdd_path) (\<lambda>_.
     andthen (getitem (settings s) ''short_anim'') (\<lambda>short_anim.
     let short_anim_arg = (if truthy short_anim then '',short_animation'' else '''') in
     andthen (getitem (settings s) ''dvd_present'') (\<lambda>dvd_present.
     andthen (if truthy dvd_present
              then andthen (getitem (settings s) ''dvd_path'') (\<lambda>dvd_path.
                   andthen (check_path w dvd_path) (\<lambda>_.
                   andthen (getitem (settings s) ''dvd_path'') (\<lambda>dvd_path'.
                   str_add '',file='' dvd_path')))
              else Inr '''') (\<lambda>dvd_path_arg.
     Inr (cmd_template (py_str xqemu_path) (py_str mcpx_path) short_anim_arg
            (py_str flash_path) (py_str hdd_path) dvd_path_arg))))))))))))"

text \<open>
  \<^verbatim>\<open>start\<close>: the result is the exception raised, if any, with the controller and the
  environment as they are when the call ends.
\<close>

definition start :: "Xqemu \<Rightarrow> SettingsManager \<Rightarrow> world \<Rightarrow> error option \<times> Xqemu \<times> world" where
  "start self s w =
     (case start_cmd s w of
        Inl e \<Rightarrow> (Some e, self, w)
      | Inr cmd \<Rightarrow>
          (case Popen (split cmd) w of
             Inl e \<Rightarrow> (Some e, self, w)
           | Inr (h, w') \<Rightarrow> (None, self\<lparr>p_handle := Some h\<rparr>, w')))"

definition stop :: "Xqemu \<Rightarrow> world \<Rightarrow> Xqemu \<times> world" where
  "stop self w =
     (case p_handle self of
        Some h \<Rightarrow> (self\<lparr>p_handle := None\<rparr>, terminate h w)
      | None \<Rightarrow> (self, w))"

definition isRunning :: "Xqemu \<Rightarrow> bool" where
  "isRunning self = (p_handle self \<noteq> None)"

section \<open>The configuration record of the specification\<close>

text \<open>
  The specification speaks of a Configuration record with eight typed fields. In the
  program the record is the dictionary of the settings store; \<open>holds s c\<close> says that
  the dictionary of \<open>s\<close> has the eight keys with the values of the record \<open>c\<close>, paths as
  strings and flags as booleans.
\<close>

record Configuration =
  emulatorPath :: string
  bootRomPath :: string
  biosPath :: string
  hardDiskImagePath :: string
  hardDiskLocked :: bool
  opticalDiscPresent :: bool
  opticalDiscPath :: string
  useShortBootAnimation :: bool

definition holds :: "SettingsManager \<Rightarrow> Configuration \<Rightarrow> bool" where
  "holds s c =
     (map_of (settings s) ''xqemu_path'' = Some (PStr (emulatorPath c)) \<and>
      map_of (settings s) ''mcpx_path'' = Some (PStr (bootRomPath c)) \<and>
      map_of (settings s) ''flash_path'' = Some (PStr (biosPath c)) \<and>
      map_of (settings s) ''hdd_path'' = Some (PStr (hardDiskImagePath c)) \<and>
      map_of (settings s) ''hdd_locked'' = Some (PBool (hardDiskLocked c)) \<and>
      map_of (settings s) ''dvd_present'' = Some (PBool (opticalDiscPresent c)) \<and>
      map_of (settings s) ''dvd_path'' = Some (PStr (opticalDiscPath c)) \<and>
      map_of (settings s) ''short_anim'' = Some (PBool (useShortBootAnimation c)))"

text \<open>The message of the exception that \<^verbatim>\<open>check_path\<close> raises for a path.\<close>

definition missing :: "string \<Rightarrow> error" where
  "missing path = Exception (''File '' @ path @ '' could not be found!'')"

text \<open>The dictionary that holds a configuration, with the keys in the order of \<^verbatim>\<open>reset\<close>.\<close>

definition store_of :: "Configuration \<Rightarrow> SettingsManager" where
  "store_of c = \<lparr>settings =
     [(''xqemu_path'', PStr (emulatorPath c)),
      (''mcpx_path'', PStr (bootRomPath c)),
      (''flash_path'', PStr (biosPath c)),
      (''hdd_path'', PStr (hardDiskImagePath c)),
      (''hdd_locked'', PBool (hardDiskLocked c)),
      (''dvd_present'', PBool (opticalDiscPresent c)),
      (''dvd_path'', PStr (opticalDiscPath c)),
      (''short_anim'', PBool (useShortBootAnimation c))]\<rparr>"

text \<open>The configuration that \<^verbatim>\<open>reset\<close> stores.\<close>

definition defaults :: Configuration where
  "defaults = \<lparr>emulatorPath = ''/path/to/xqemu'', bootRomPath = ''/path/to/mcpx.bin'',
     biosPath = ''/path/to/flash.bin'', hardDiskImagePath = ''/path/to/hdd.img'',
     hardDiskLocked = True, opticalDiscPresent = True,
     opticalDiscPath = ''/path/to/disc.iso'', useShortBootAnimation = False\<rparr>"

text \<open>
  The argument list that the specification describes for a configuration: the executable,
  then one argument for each option and one for each option value.
\<close>

definition argument_list :: "Configuration \<Rightarrow> string list" where
  "argument_list c =
     [emulatorPath c, ''-cpu'', ''pentium3'', ''-machine'',
      ''xbox,bootrom='' @ bootRomPath c
        @ (if useShortBootAnimation c then '',short_animation'' else ''''),
      ''-m'', ''64'', ''-bios'', biosPath c,
      ''-net'', ''nic,model=nvnet'', ''-net'', ''user'', ''-monitor'', ''stdio'',
      ''-drive'', ''file='' @ hardDiskImagePath c @ '',index=0,media=disk'',
      ''-drive'',
      ''index=1,media=cdrom''
        @ (if opticalDiscPresent c then '',file='' @ opticalDiscPath c else '''')]"

text \<open>A string without white space is one that \<^verbatim>\<open>split\<close> leaves in one piece.\<close>

definition no_space :: "string \<Rightarrow> bool" where
  "no_space s = (\<forall>ch\<in>set s. \<not> is_space ch)"

text \<open>
  What a caller observes of a call of \<^verbatim>\<open>start\<close>: the exception, the controller and the
  process table.
\<close>

definition outcome :: "error option \<times> Xqemu \<times> world \<Rightarrow> error option \<times> Xqemu \<times> process list" where
  "outcome r = (fst r, fst (snd r), procs (snd (snd r)))"

section \<open>An environment for the examples\<close>

text \<open>
  A file system in which the default paths name placeholder files, except the disc image,
  which is missing; \<^verbatim>\<open>/path/to\<close> is a directory and there is no settings file. The system
  can launch the placeholder emulator and nothing else.
\<close>

definition placeholder_files :: "pyval \<rightharpoonup> node" where
  "placeholder_files =
     [PStr ''/path/to'' \<mapsto> Dir,
      PStr ''/path/to/xqemu'' \<mapsto> File ''xqemu'',
      PStr ''/path/to/mcpx.bin'' \<mapsto> File ''mcpx'',
      PStr ''/path/to/flash.bin'' \<mapsto> File ''flash'',
      PStr ''/path/to/hdd.img'' \<mapsto> File ''hdd'',
      PStr ''/path/to/my disk.img'' \<mapsto> File ''hdd'']"

definition placeholder_world :: world where
  "placeholder_world =
     \<lparr>files = placeholder_files, readable = (\<lambda>_. True), writable = (\<lambda>_. True),
      launchable = (\<lambda>prog. prog = ''/path/to/xqemu''), procs = []\<rparr>"

text \<open>The same environment with one child process already in the table, at handle 0.\<close>

definition busy_world :: world where
  "busy_world =
     placeholder_world\<lparr>procs := [\<lparr>argv = [''/path/to/xqemu''], signalled = False\<rparr>]\<rparr>"

section \<open>Properties of the auxiliary functions\<close>

lemma andthen_simps [simp]: "andthen (Inl e) f = Inl e" "andthen (Inr v) f = f v"
  by (simp_all add: andthen_def)

lemma takeWhile_stop: "\<not> P c \<Longrightarrow> takeWhile P (xs @ c # ys) = takeWhile P xs"
  by (induction xs) auto

lemma dropWhile_stop: "\<not> P c \<Longrightarrow> dropWhile P (xs @ c # ys) = dropWhile P xs @ c # ys"
  by (induction xs) auto

lemma split_space: "is_space c \<Longrightarrow> split (a @ c # b) = split a @ split b"
proof (induction a rule: split.induct)
  case 1
  then show ?case by simp
next
  case (2 x xs)
  then show ?case
    by (simp add: takeWhile_stop dropWhile_stop)
qed

lemma split_word: "s \<noteq> [] \<Longrightarrow> \<forall>c\<in>set s. \<not> is_space c \<Longrightarrow> split s = [s]"
  by (cases s) (auto simp: takeWhile_eq_all_conv[THEN iffD2] dropWhile_eq_Nil_conv[THEN iffD2])

lemma split_no_space: "t \<in> set (split s) \<Longrightarrow> c \<in> set t \<Longrightarrow> \<not> is_space c"
proof (induction s arbitrary: t rule: split.induct)
  case 1
  then show ?case by simp
next
  case (2 x xs)
  then show ?case
    by (auto split: if_splits dest: set_takeWhileD)
qed

lemma is_space_blank: "is_space (CHR '' '')"
  by (simp add: is_space_def)

text \<open>The arguments of a command line, piece by piece.\<close>

lemma split_cmd_template:
  "split (cmd_template xq mc sa fl hdd dv) =
     split xq @ [''-cpu'', ''pentium3'', ''-machine''] @
     split (''xbox,bootrom='' @ mc @ sa) @ [''-m'', ''64'', ''-bios''] @
     split fl @
     [''-net'', ''nic,model=nvnet'', ''-net'', ''user'', ''-monitor'', ''stdio'', ''-drive''] @
     split (''file='' @ hdd @ '',index=0,media=disk'') @ [''-drive''] @
     split (''index=1,media=cdrom'' @ dv)"
proof -
  let ?sp = "CHR '' ''"
  have e: "cmd_template xq mc sa fl hdd dv =
    xq @ ?sp # ((tabs @ ''-cpu pentium3 '' @ tabs @ ''-machine'') @ ?sp #
      ((''xbox,bootrom='' @ mc @ sa) @ ?sp # ((''-m 64 '' @ tabs @ ''-bios'') @ ?sp #
        (fl @ ?sp #
          ((tabs @ ''-net nic,model=nvnet -net user '' @ tabs @ ''-monitor stdio '' @ tabs
              @ ''-drive'') @ ?sp #
            ((''file='' @ hdd @ '',index=0,media=disk'') @ ?sp # ((tabs @ ''-drive'') @ ?sp #
              (''index=1,media=cdrom'' @ dv))))))))"
    by (simp add: cmd_template_def)
  have l1: "split (tabs @ ''-cpu pentium3 '' @ tabs @ ''-machine'')
      = [''-cpu'', ''pentium3'', ''-machine'']"
    by (simp add: tabs_def is_space_def)
  have l2: "split (''-m 64 '' @ tabs @ ''-bios'') = [''-m'', ''64'', ''-bios'']"
    by (simp add: tabs_def is_space_def)
  have l3: "split (tabs @ ''-net nic,model=nvnet -net user '' @ tabs @ ''-monitor stdio ''
        @ tabs @ ''-drive'')
      = [''-net'', ''nic,model=nvnet'', ''-net'', ''user'', ''-monitor'', ''stdio'', ''-drive'']"
    by (simp add: tabs_def is_space_def)
  have l4: "split (tabs @ ''-drive'') = [''-drive'']"
    by (simp add: tabs_def is_space_def)
  show ?thesis
    unfolding e by (simp only: split_space [OF is_space_blank] l1 l2 l3 l4)
qed

section \<open>Properties of the look-ups and the path check\<close>

lemma getitem_Some: "map_of d k = Some v \<Longrightarrow> getitem d k = Inr v"
  by (simp add: getitem_def)

lemma check_path_iff:
  "(check_path w x = Inr ()) = (files w x \<noteq> None \<and> files w x \<noteq> Some Dir)"
  by (simp add: check_path_def path_exists_def path_isdir_def)

lemma check_path_cases:
  "check_path w (PStr p) =
     (if files w (PStr p) = None \<or> files w (PStr p) = Some Dir then Inl (missing p)
      else Inr ())"
  by (simp add: check_path_def path_exists_def path_isdir_def missing_def)

lemma check_path_agree: "files w' x = files w x \<Longrightarrow> check_path w' x = check_path w x"
  by (simp add: check_path_def path_exists_def path_isdir_def)

text \<open>The first part of \<^verbatim>\<open>start\<close> on a dictionary that holds a configuration.\<close>

lemma start_cmd_holds:
  assumes "holds s c"
  shows "start_cmd s w =
     andthen (check_path w (PStr (emulatorPath c))) (\<lambda>_.
     andthen (check_path w (PStr (bootRomPath c))) (\<lambda>_.
     andthen (check_path w (PStr (biosPath c))) (\<lambda>_.
     andthen (check_path w (PStr (hardDiskImagePath c))) (\<lambda>_.
     andthen (if opticalDiscPresent c
              then andthen (check_path w (PStr (opticalDiscPath c)))
                     (\<lambda>_. Inr ('',file='' @ opticalDiscPath c))
              else Inr '''') (\<lambda>dvd_path_arg.
     Inr (cmd_template (emulatorPath c) (bootRomPath c)
            (if useShortBootAnimation c then '',short_animation'' else '''')
            (biosPath c) (hardDiskImagePath c) dvd_path_arg))))))"
  using assms by (simp add: start_cmd_def holds_def getitem_Some)

lemma start_raises: "start_cmd s w = Inl e \<Longrightarrow> start self s w = (Some e, self, w)"
  by (simp add: start_def)

lemma start_spawns:
  "start_cmd s w = Inr cmd \<Longrightarrow>
   start self s w =
     (case Popen (split cmd) w of
        Inl e \<Rightarrow> (Some e, self, w)
      | Inr (h, w') \<Rightarrow> (None, self\<lparr>p_handle := Some h\<rparr>, w'))"
  by (simp add: start_def)

lemma holds_store_of: "holds (store_of c) c"
  by (simp add: holds_def store_of_def)

lemma reset_defaults: "reset s = store_of defaults"
  by (simp add: reset_def store_of_def defaults_def)

lemma placeholder_checks:
  "check_path placeholder_world (PStr ''/path/to/xqemu'') = Inr ()"
  "check_path placeholder_world (PStr ''/path/to/mcpx.bin'') = Inr ()"
  "check_path placeholder_world (PStr ''/path/to/flash.bin'') = Inr ()"
  "check_path placeholder_world (PStr ''/path/to/hdd.img'') = Inr ()"
  "check_path placeholder_world (PStr ''/path/to/my disk.img'') = Inr ()"
  by (simp_all add: check_path_iff placeholder_world_def placeholder_files_def)

section \<open>Launch-time validation\<close>

text \<open>
  C4: when the emulator path of the configuration names an existing directory, \<^verbatim>\<open>start\<close>
  raises the missing-path exception for that path, and the controller and the environment
  are as before the call, so nothing has been spawned. \<^verbatim>\<open>check_path\<close> raises for a path
  exactly when the path does not exist or is a directory, and returns normally otherwise.
\<close>

theorem C4_directory_rejected:
  assumes "holds s c" and "files w (PStr (emulatorPath c)) = Some Dir"
  shows "start self s w = (Some (missing (emulatorPath c)), self, w) \<and>
         (\<forall>v x. (check_path v x = Inl (missing (py_str x)))
                  = (files v x = None \<or> files v x = Some Dir)) \<and>
         (\<forall>v x. (check_path v x = Inr ())
                  = (files v x \<noteq> None \<and> files v x \<noteq> Some Dir))"
proof -
  have "start_cmd s w = Inl (missing (emulatorPath c))"
    using assms by (simp add: start_cmd_holds check_path_cases)
  then have "start self s w = (Some (missing (emulatorPath c)), self, w)"
    by (rule start_raises)
  moreover have "(check_path v x = Inl (missing (py_str x)))
      = (files v x = None \<or> files v x = Some Dir)" for v x
    by (simp add: check_path_def path_exists_def path_isdir_def missing_def)
  moreover have "(check_path v x = Inr ())
      = (files v x \<noteq> None \<and> files v x \<noteq> Some Dir)" for v x
    by (rule check_path_iff)
  ultimately show ?thesis by blast
qed

theorem C4_witness:
  "holds (store_of (defaults\<lparr>emulatorPath := ''/path/to''\<rparr>))
     (defaults\<lparr>emulatorPath := ''/path/to''\<rparr>) \<and>
   files placeholder_world (PStr ''/path/to'') = Some Dir \<and>
   start Xqemu_init (store_of (defaults\<lparr>emulatorPath := ''/path/to''\<rparr>)) placeholder_world
     = (Some (Exception ''File /path/to could not be found!''), Xqemu_init, placeholder_world)"
proof -
  let ?c = "defaults\<lparr>emulatorPath := ''/path/to''\<rparr>"
  have h: "holds (store_of ?c) ?c"
    by (rule holds_store_of)
  have d: "files placeholder_world (PStr (emulatorPath ?c)) = Some Dir"
    by (simp add: placeholder_world_def placeholder_files_def)
  show ?thesis
    using C4_directory_rejected [OF h d, of Xqemu_init] h d by (simp add: missing_def)
qed

text \<open>
  C2: when the configuration says that a disc is present, the disc path does not exist and
  the four required paths pass the check, \<^verbatim>\<open>start\<close> raises the missing-path exception
  that names the disc path; the controller and the environment are as before the call: no
  process has been spawned and the retained handle is unchanged.
\<close>

theorem C2_missing_disc:
  assumes "holds s c" and "opticalDiscPresent c"
    and "files w (PStr (opticalDiscPath c)) = None"
    and "check_path w (PStr (emulatorPath c)) = Inr ()"
    and "check_path w (PStr (bootRomPath c)) = Inr ()"
    and "check_path w (PStr (biosPath c)) = Inr ()"
    and "check_path w (PStr (hardDiskImagePath c)) = Inr ()"
  shows "start self s w = (Some (missing (opticalDiscPath c)), self, w)"
proof -
  have "check_path w (PStr (opticalDiscPath c)) = Inl (missing (opticalDiscPath c))"
    using assms(3) by (simp add: check_path_cases)
  then have "start_cmd s w = Inl (missing (opticalDiscPath c))"
    using assms by (simp add: start_cmd_holds)
  then show ?thesis by (rule start_raises)
qed

theorem C2_witness:
  "holds (store_of defaults) defaults \<and> opticalDiscPresent defaults \<and>
   files placeholder_world (PStr (opticalDiscPath defaults)) = None \<and>
   check_path placeholder_world (PStr (emulatorPath defaults)) = Inr () \<and>
   check_path placeholder_world (PStr (bootRomPath defaults)) = Inr () \<and>
   check_path placeholder_world (PStr (biosPath defaults)) = Inr () \<and>
   check_path placeholder_world (PStr (hardDiskImagePath defaults)) = Inr () \<and>
   start \<lparr>p_handle = Some 7\<rparr> (store_of defaults) placeholder_world
     = (Some (Exception ''File /path/to/disc.iso could not be found!''),
        \<lparr>p_handle = Some 7\<rparr>, placeholder_world)"
proof -
  have h: "holds (store_of defaults) defaults"
    by (rule holds_store_of)
  have p: "opticalDiscPresent defaults"
    by (simp add: defaults_def)
  have n: "files placeholder_world (PStr (opticalDiscPath defaults)) = None"
    by (simp add: defaults_def placeholder_world_def placeholder_files_def)
  have c1: "check_path placeholder_world (PStr (emulatorPath defaults)) = Inr ()"
    by (simp add: defaults_def placeholder_checks)
  have c2: "check_path placeholder_world (PStr (bootRomPath defaults)) = Inr ()"
    by (simp add: defaults_def placeholder_checks)
  have c3: "check_path placeholder_world (PStr (biosPath defaults)) = Inr ()"
    by (simp add: defaults_def placeholder_checks)
  have c4: "check_path placeholder_world (PStr (hardDiskImagePath defaults)) = Inr ()"
    by (simp add: defaults_def placeholder_checks)
  have m: "missing (opticalDiscPath defaults)
      = Exception ''File /path/to/disc.iso could not be found!''"
    by (simp add: missing_def defaults_def)
  show ?thesis
    using C2_missing_disc [OF h p n c1 c2 c3 c4, of "\<lparr>p_handle = Some 7\<rparr>"] h p n c1 c2 c3 c4
    by (simp only: m simp_thms)
qed

lemma placeholder_cmd:
  "split (cmd_template ''/path/to/xqemu'' ''/path/to/mcpx.bin'' [] ''/path/to/flash.bin''
            ''/path/to/hdd.img'' [])
   = [''/path/to/xqemu'', ''-cpu'', ''pentium3'', ''-machine'', ''xbox,bootrom=/path/to/mcpx.bin'',
      ''-m'', ''64'', ''-bios'', ''/path/to/flash.bin'', ''-net'', ''nic,model=nvnet'', ''-net'',
      ''user'', ''-monitor'', ''stdio'', ''-drive'', ''file=/path/to/hdd.img,index=0,media=disk'',
      ''-drive'', ''index=1,media=cdrom'']"
  by (simp add: split_cmd_template is_space_def)

text \<open>
  C3: when the configuration says that no disc is present, \<^verbatim>\<open>start\<close> does not look at the
  disc path. What the call does (the exception, the controller, the process table) is the
  same in any two environments that agree on the four required paths, on what can be
  launched and on the process table, whatever they say about the disc path; when the four
  required paths pass the check the command line is built; and an exception raised before
  the spawn names one of the four required paths, which fails the check.
\<close>

theorem C3_disc_path_not_required:
  assumes "holds s c" and "\<not> opticalDiscPresent c"
  shows "(\<forall>w'. files w' (PStr (emulatorPath c)) = files w (PStr (emulatorPath c)) \<and>
               files w' (PStr (bootRomPath c)) = files w (PStr (bootRomPath c)) \<and>
               files w' (PStr (biosPath c)) = files w (PStr (biosPath c)) \<and>
               files w' (PStr (hardDiskImagePath c)) = files w (PStr (hardDiskImagePath c)) \<and>
               launchable w' = launchable w \<and> procs w' = procs w
             \<longrightarrow> outcome (start self s w') = outcome (start self s w)) \<and>
         (check_path w (PStr (emulatorPath c)) = Inr () \<and>
          check_path w (PStr (bootRomPath c)) = Inr () \<and>
          check_path w (PStr (biosPath c)) = Inr () \<and>
          check_path w (PStr (hardDiskImagePath c)) = Inr ()
             \<longrightarrow> start_cmd s w =
                  Inr (cmd_template (emulatorPath c) (bootRomPath c)
                         (if useShortBootAnimation c then '',short_animation'' else '''')
                         (biosPath c) (hardDiskImagePath c) '''')) \<and>
         (\<forall>e. start_cmd s w = Inl e \<longrightarrow>
            (\<exists>p \<in> {emulatorPath c, bootRomPath c, biosPath c, hardDiskImagePath c}.
               e = missing p \<and> check_path w (PStr p) = Inl (missing p)))"
proof (intro conjI allI impI)
  fix w' :: world
  assume a: "files w' (PStr (emulatorPath c)) = files w (PStr (emulatorPath c)) \<and>
               files w' (PStr (bootRomPath c)) = files w (PStr (bootRomPath c)) \<and>
               files w' (PStr (biosPath c)) = files w (PStr (biosPath c)) \<and>
               files w' (PStr (hardDiskImagePath c)) = files w (PStr (hardDiskImagePath c)) \<and>
               launchable w' = launchable w \<and> procs w' = procs w"
  have "check_path w' (PStr (emulatorPath c)) = check_path w (PStr (emulatorPath c))"
       "check_path w' (PStr (bootRomPath c)) = check_path w (PStr (bootRomPath c))"
       "check_path w' (PStr (biosPath c)) = check_path w (PStr (biosPath c))"
       "check_path w' (PStr (hardDiskImagePath c)) = check_path w (PStr (hardDiskImagePath c))"
    using a by (simp_all add: check_path_agree [of w' _ w])
  then have eq: "start_cmd s w' = start_cmd s w"
    using assms by (simp add: start_cmd_holds)
  show "outcome (start self s w') = outcome (start self s w)"
  proof (cases "start_cmd s w")
    case (Inl e)
    then show ?thesis using eq a by (simp add: outcome_def start_def)
  next
    case (Inr cmd)
    then show ?thesis
      using eq a by (cases "split cmd") (simp_all add: outcome_def start_def Popen_def)
  qed
next
  assume "check_path w (PStr (emulatorPath c)) = Inr () \<and>
          check_path w (PStr (bootRomPath c)) = Inr () \<and>
          check_path w (PStr (biosPath c)) = Inr () \<and>
          check_path w (PStr (hardDiskImagePath c)) = Inr ()"
  then show "start_cmd s w =
                  Inr (cmd_template (emulatorPath c) (bootRomPath c)
                         (if useShortBootAnimation c then '',short_animation'' else '''')
                         (biosPath c) (hardDiskImagePath c) '''')"
    using assms by (simp add: start_cmd_holds)
next
  fix e
  assume "start_cmd s w = Inl e"
  then show "\<exists>p \<in> {emulatorPath c, bootRomPath c, biosPath c, hardDiskImagePath c}.
               e = missing p \<and> check_path w (PStr p) = Inl (missing p)"
    using assms by (auto simp: start_cmd_holds check_path_cases split: if_splits)
qed

theorem C3_witness:
  "holds (store_of (defaults\<lparr>opticalDiscPresent := False\<rparr>))
     (defaults\<lparr>opticalDiscPresent := False\<rparr>) \<and>
   files placeholder_world (PStr ''/path/to/disc.iso'') = None \<and>
   fst (start Xqemu_init (store_of (defaults\<lparr>opticalDiscPresent := False\<rparr>)) placeholder_world)
     = None \<and>
   outcome (start Xqemu_init (store_of (defaults\<lparr>opticalDiscPresent := False\<rparr>))
      (placeholder_world\<lparr>files := placeholder_files(PStr ''/path/to/disc.iso'' \<mapsto> File ''disc'')\<rparr>))
   = outcome (start Xqemu_init (store_of (defaults\<lparr>opticalDiscPresent := False\<rparr>))
      placeholder_world)"
proof -
  let ?c = "defaults\<lparr>opticalDiscPresent := False\<rparr>"
  let ?w' = "placeholder_world\<lparr>files := placeholder_files(PStr ''/path/to/disc.iso'' \<mapsto> File ''disc'')\<rparr>"
  have h: "holds (store_of ?c) ?c"
    by (rule holds_store_of)
  have p: "\<not> opticalDiscPresent ?c"
    by simp
  have n: "files placeholder_world (PStr ''/path/to/disc.iso'') = None"
    by (simp add: placeholder_world_def placeholder_files_def)
  have agree: "files ?w' (PStr (emulatorPath ?c)) = files placeholder_world (PStr (emulatorPath ?c)) \<and>
     files ?w' (PStr (bootRomPath ?c)) = files placeholder_world (PStr (bootRomPath ?c)) \<and>
     files ?w' (PStr (biosPath ?c)) = files placeholder_world (PStr (biosPath ?c)) \<and>
     files ?w' (PStr (hardDiskImagePath ?c)) = files placeholder_world (PStr (hardDiskImagePath ?c)) \<and>
     launchable ?w' = launchable placeholder_world \<and> procs ?w' = procs placeholder_world"
    by (simp add: defaults_def placeholder_world_def)
  have valid: "check_path placeholder_world (PStr (emulatorPath ?c)) = Inr () \<and>
     check_path placeholder_world (PStr (bootRomPath ?c)) = Inr () \<and>
     check_path placeholder_world (PStr (biosPath ?c)) = Inr () \<and>
     check_path placeholder_world (PStr (hardDiskImagePath ?c)) = Inr ()"
    by (simp add: defaults_def placeholder_checks)
  note t = C3_disc_path_not_required [OF h p, of placeholder_world Xqemu_init]
  from t agree have o: "outcome (start Xqemu_init (store_of ?c) ?w')
      = outcome (start Xqemu_init (store_of ?c) placeholder_world)"
    by blast
  from t valid have "start_cmd (store_of ?c) placeholder_world =
     Inr (cmd_template (emulatorPath ?c) (bootRomPath ?c)
            (if useShortBootAnimation ?c then '',short_animation'' else '''')
            (biosPath ?c) (hardDiskImagePath ?c) '''')"
    by blast
  then have "fst (start Xqemu_init (store_of ?c) placeholder_world) = None"
    by (simp add: start_def defaults_def placeholder_cmd Popen_def placeholder_world_def)
  with h n o show ?thesis by simp
qed

section \<open>Properties of the settings store\<close>

text \<open>
  C8: when the settings file does not exist, \<^verbatim>\<open>load\<close> returns normally and leaves the
  store in the state that \<^verbatim>\<open>reset\<close> produces, whatever the store held before.
\<close>

theorem C8_load_missing_file:
  assumes "files w (PStr SETTINGS_FILE) = None"
  shows "load self w = (None, reset self)"
  using assms by (simp add: load_def path_exists_def)

theorem C8_witness:
  "files placeholder_world (PStr SETTINGS_FILE) = None \<and>
   load \<lparr>settings = [(''xqemu_path'', PStr ''/usr/bin/xqemu'')]\<rparr> placeholder_world
     = (None, store_of defaults)"
proof -
  have n: "files placeholder_world (PStr SETTINGS_FILE) = None"
    by (simp add: placeholder_world_def placeholder_files_def SETTINGS_FILE_def)
  show ?thesis
    using C8_load_missing_file [OF n, of "\<lparr>settings = [(''xqemu_path'', PStr ''/usr/bin/xqemu'')]\<rparr>"] n
    by (simp add: reset_defaults)
qed

text \<open>The text written for the defaults is read back as the defaults.\<close>

lemma loads_dumps_defaults:
  "json_loads (json_dumps (settings (reset s))) = Inr (settings (reset s))"
  by (simp add: reset_def json_dumps_def encode_item_def encode_string_def escape_char_def
      json_loads_def skip_ws_def is_json_ws_def parse_value_def cons_fst_def dict_def)

text \<open>
  C7: from any store state, \<^verbatim>\<open>reset\<close>, then \<^verbatim>\<open>save\<close>, then \<^verbatim>\<open>load\<close> give the
  store that \<^verbatim>\<open>reset\<close> alone gives: in an environment where the settings file is not a
  directory and can be written and read, \<^verbatim>\<open>save\<close> returns normally, and \<^verbatim>\<open>load\<close> on the
  resulting file system returns normally with the dictionary of the defaults (for the store
  that saved, and for any other store that loads the file).
\<close>

theorem C7_defaults_round_trip:
  assumes "files w (PStr SETTINGS_FILE) \<noteq> Some Dir"
    and "writable w SETTINGS_FILE" and "readable w SETTINGS_FILE"
  shows "\<exists>w'. save (reset self) w = (None, w') \<and>
              load (reset self) w' = (None, reset self) \<and>
              (\<forall>other. load other w' = (None, other\<lparr>settings := settings (reset self)\<rparr>))"
proof -
  let ?w' = "w\<lparr>files := (files w)(PStr SETTINGS_FILE \<mapsto> File (json_dumps (settings (reset self))))\<rparr>"
  have s: "save (reset self) w = (None, ?w')"
    using assms by (simp add: save_def open_write_def)
  have l: "load other ?w' = (None, other\<lparr>settings := settings (reset self)\<rparr>)" for other
    using assms by (simp add: load_def path_exists_def open_read_def loads_dumps_defaults)
  have "load (reset self) ?w' = (None, reset self)"
    by (simp add: l)
  with s l show ?thesis by blast
qed

theorem C7_witness:
  "files placeholder_world (PStr SETTINGS_FILE) \<noteq> Some Dir \<and>
   writable placeholder_world SETTINGS_FILE \<and> readable placeholder_world SETTINGS_FILE \<and>
   (\<exists>w'. save (reset \<lparr>settings = []\<rparr>) placeholder_world = (None, w') \<and>
         load (reset \<lparr>settings = []\<rparr>) w' = (None, store_of defaults))"
proof -
  have a: "files placeholder_world (PStr SETTINGS_FILE) \<noteq> Some Dir"
    by (simp add: placeholder_world_def placeholder_files_def SETTINGS_FILE_def)
  have b: "writable placeholder_world SETTINGS_FILE"
    by (simp add: placeholder_world_def)
  have c: "readable placeholder_world SETTINGS_FILE"
    by (simp add: placeholder_world_def)
  from C7_defaults_round_trip [OF a b c, of "\<lparr>settings = []\<rparr>"] a b c
  show ?thesis
    by (auto simp: reset_defaults)
qed

section \<open>The state of the controller\<close>

lemma placeholder_start:
  "start self (store_of (defaults\<lparr>opticalDiscPresent := False\<rparr>)) placeholder_world =
     (None, self\<lparr>p_handle := Some 0\<rparr>,
      placeholder_world\<lparr>procs :=
        [\<lparr>argv = [''/path/to/xqemu'', ''-cpu'', ''pentium3'', ''-machine'',
                  ''xbox,bootrom=/path/to/mcpx.bin'', ''-m'', ''64'', ''-bios'',
                  ''/path/to/flash.bin'', ''-net'', ''nic,model=nvnet'', ''-net'', ''user'',
                  ''-monitor'', ''stdio'', ''-drive'',
                  ''file=/path/to/hdd.img,index=0,media=disk'', ''-drive'',
                  ''index=1,media=cdrom''],
          signalled = False\<rparr>]\<rparr>)"
proof -
  let ?c = "defaults\<lparr>opticalDiscPresent := False\<rparr>"
  have "start_cmd (store_of ?c) placeholder_world =
     Inr (cmd_template ''/path/to/xqemu'' ''/path/to/mcpx.bin'' [] ''/path/to/flash.bin''
            ''/path/to/hdd.img'' [])"
    using start_cmd_holds [OF holds_store_of [of ?c], of placeholder_world]
    by (simp add: defaults_def placeholder_checks)
  then show ?thesis
    by (simp add: start_def placeholder_cmd Popen_def placeholder_world_def)
qed

text \<open>
  C5: when \<^verbatim>\<open>start\<close> returns without raising, \<^verbatim>\<open>isRunning\<close> is true of the resulting
  controller; after a following \<^verbatim>\<open>stop\<close> it is false; and \<^verbatim>\<open>isRunning\<close> is exactly
  the test whether a handle is retained: it is a function of the controller alone and does
  not look at the processes of the environment.
\<close>

theorem C5_running_status:
  assumes "start self s w = (None, self', w')"
  shows "isRunning self' \<and> \<not> isRunning (fst (stop self' w')) \<and>
         (\<forall>x. isRunning x = (p_handle x \<noteq> None))"
proof -
  from assms obtain h where "self' = self\<lparr>p_handle := Some h\<rparr>"
    by (auto simp: start_def split: sum.splits)
  then show ?thesis
    by (simp add: isRunning_def stop_def)
qed

theorem C5_witness:
  "\<exists>w'. start Xqemu_init (store_of (defaults\<lparr>opticalDiscPresent := False\<rparr>)) placeholder_world
          = (None, \<lparr>p_handle = Some 0\<rparr>, w') \<and>
        \<not> isRunning Xqemu_init \<and>
        isRunning \<lparr>p_handle = Some 0\<rparr> \<and>
        \<not> isRunning (fst (stop \<lparr>p_handle = Some 0\<rparr> w'))"
proof -
  obtain w' where s: "start Xqemu_init (store_of (defaults\<lparr>opticalDiscPresent := False\<rparr>))
      placeholder_world = (None, \<lparr>p_handle = Some 0\<rparr>, w')"
    using placeholder_start [of Xqemu_init] by (simp add: Xqemu_init_def)
  have "\<not> isRunning Xqemu_init"
    by (simp add: isRunning_def Xqemu_init_def)
  with s C5_running_status [OF s] show ?thesis by blast
qed

text \<open>
  C10: two dictionaries that differ at most in the entry \<^verbatim>\<open>hdd_locked\<close> (its value, or
  whether it is there at all) give the same call of \<^verbatim>\<open>start\<close>: the same exception or the
  same command line, controller and environment. \<^verbatim>\<open>stop\<close> and \<^verbatim>\<open>isRunning\<close> take no
  settings at all.
\<close>

theorem C10_lock_flag_unread:
  assumes "map_of (settings s') = (map_of (settings s))(''hdd_locked'' := v)"
  shows "start self s' w = start self s w"
proof -
  have "getitem (settings s') k = getitem (settings s) k" if "k \<noteq> ''hdd_locked''" for k
    using assms that by (simp add: getitem_def)
  then have "start_cmd s' w = start_cmd s w"
    by (simp add: start_cmd_def cong: if_cong)
  then show ?thesis
    by (simp add: start_def)
qed

theorem C10_witness:
  "map_of (settings (store_of (defaults\<lparr>hardDiskLocked := False\<rparr>)))
     = (map_of (settings (store_of defaults)))(''hdd_locked'' := Some (PBool False)) \<and>
   map_of (settings (store_of defaults)) ''hdd_locked'' = Some (PBool True) \<and>
   start Xqemu_init (store_of (defaults\<lparr>hardDiskLocked := False\<rparr>)) placeholder_world
     = start Xqemu_init (store_of defaults) placeholder_world"
proof -
  have m: "map_of (settings (store_of (defaults\<lparr>hardDiskLocked := False\<rparr>)))
     = (map_of (settings (store_of defaults)))(''hdd_locked'' := Some (PBool False))"
    by (rule ext) (simp add: store_of_def defaults_def)
  have "map_of (settings (store_of defaults)) ''hdd_locked'' = Some (PBool True)"
    by (simp add: store_of_def defaults_def)
  with m C10_lock_flag_unread [OF m, of Xqemu_init placeholder_world] show ?thesis
    by simp
qed

section \<open>The argument list\<close>

lemma split_nonempty: "t \<in> set (split s) \<Longrightarrow> t \<noteq> []"
proof (induction s arbitrary: t rule: split.induct)
  case 1
  then show ?case by simp
next
  case (2 x xs)
  then show ?case
    by (auto split: if_splits)
qed

lemma split_last_suffix:
  assumes "b \<noteq> []" and "\<forall>c\<in>set b. \<not> is_space c"
  shows "split (a @ b) \<noteq> [] \<and> suffix b (last (split (a @ b)))"
proof (induction a rule: split.induct)
  case 1
  then show ?case using assms by (simp add: split_word)
next
  case (2 x xs)
  show ?case
  proof (cases "is_space x")
    case True
    then show ?thesis using 2 by simp
  next
    case False
    show ?thesis
    proof (cases "\<forall>c\<in>set xs. \<not> is_space c")
      case True
      then have "split ((x # xs) @ b) = [(x # xs) @ b]"
        using False assms by (intro split_word) auto
      then show ?thesis by (simp add: suffix_def)
    next
      case False
      then obtain ys z zs where xs: "xs = ys @ z # zs" and z: "is_space z"
        and ys: "\<forall>c\<in>set ys. \<not> is_space c"
        by (metis split_list_first_prop)
      have d: "dropWhile (\<lambda>x. \<not> is_space x) (xs @ b) = dropWhile (\<lambda>x. \<not> is_space x) xs @ b"
        using xs z ys by simp
      from 2(2) [OF \<open>\<not> is_space x\<close>] have "split (dropWhile (\<lambda>x. \<not> is_space x) xs @ b) \<noteq> [] \<and>
          suffix b (last (split (dropWhile (\<lambda>x. \<not> is_space x) xs @ b)))" .
      then show ?thesis
        using \<open>\<not> is_space x\<close> d by simp
    qed
  qed
qed

lemma start_cmd_Inr:
  assumes "holds s c" and "start_cmd s w = Inr cmd"
  shows "cmd = cmd_template (emulatorPath c) (bootRomPath c)
            (if useShortBootAnimation c then '',short_animation'' else '''')
            (biosPath c) (hardDiskImagePath c)
            (if opticalDiscPresent c then '',file='' @ opticalDiscPath c else '''')"
  using assms by (auto simp: start_cmd_holds andthen_def split: sum.splits if_splits)

lemma no_space_Nil [simp]: "no_space []"
  by (simp add: no_space_def)

lemma no_space_Cons [simp]: "no_space (x # xs) = (\<not> is_space x \<and> no_space xs)"
  by (simp add: no_space_def)

lemma no_space_append [simp]: "no_space (a @ b) = (no_space a \<and> no_space b)"
  by (auto simp: no_space_def)

lemma split_one: "s \<noteq> [] \<Longrightarrow> no_space s \<Longrightarrow> split s = [s]"
  by (simp add: split_word no_space_def)

lemma split_elem: "t \<in> set (split s) \<Longrightarrow> t \<noteq> [] \<and> no_space t"
  using split_nonempty [of t s] split_no_space [of t s] by (auto simp: no_space_def)

lemma split_args_faithful:
  fixes c :: Configuration
  defines "sa \<equiv> (if useShortBootAnimation c then '',short_animation'' else [])"
    and "dv \<equiv> (if opticalDiscPresent c then '',file='' @ opticalDiscPath c else [])"
  shows "(split (cmd_template (emulatorPath c) (bootRomPath c) sa (biosPath c)
                  (hardDiskImagePath c) dv) = argument_list c)
       = (emulatorPath c \<noteq> [] \<and> biosPath c \<noteq> [] \<and>
          no_space (emulatorPath c) \<and> no_space (bootRomPath c) \<and> no_space (biosPath c) \<and>
          no_space (hardDiskImagePath c) \<and>
          (opticalDiscPresent c \<longrightarrow> no_space (opticalDiscPath c)))"
    (is "(?l = ?r) = ?P")
proof
  assume eq: "?l = ?r"
  have el: "a \<noteq> [] \<and> no_space a" if "a \<in> set ?r" for a
    using that split_elem [of a] eq by metis
  have "emulatorPath c \<in> set ?r" "biosPath c \<in> set ?r"
    "''xbox,bootrom='' @ bootRomPath c @ sa \<in> set ?r"
    "''file='' @ hardDiskImagePath c @ '',index=0,media=disk'' \<in> set ?r"
    "''index=1,media=cdrom'' @ dv \<in> set ?r"
    by (simp_all add: argument_list_def sa_def dv_def)
  then have "emulatorPath c \<noteq> [] \<and> no_space (emulatorPath c)"
    "biosPath c \<noteq> [] \<and> no_space (biosPath c)"
    "no_space (''xbox,bootrom='' @ bootRomPath c @ sa)"
    "no_space (''file='' @ hardDiskImagePath c @ '',index=0,media=disk'')"
    "no_space (''index=1,media=cdrom'' @ dv)"
    using el by blast+
  then show ?P
    by (simp add: dv_def is_space_def split: if_splits)
next
  assume p: ?P
  have sa: "no_space sa"
    by (simp add: sa_def is_space_def)
  have dv: "no_space dv"
    using p by (simp add: dv_def is_space_def)
  have 1: "split (emulatorPath c) = [emulatorPath c]"
    using p by (simp add: split_one)
  have 2: "split (''xbox,bootrom='' @ bootRomPath c @ sa) = [''xbox,bootrom='' @ bootRomPath c @ sa]"
    using p sa by (intro split_one) (simp_all add: is_space_def)
  have 3: "split (biosPath c) = [biosPath c]"
    using p by (simp add: split_one)
  have 4: "split (''file='' @ hardDiskImagePath c @ '',index=0,media=disk'')
      = [''file='' @ hardDiskImagePath c @ '',index=0,media=disk'']"
    using p by (intro split_one) (simp_all add: is_space_def)
  have 5: "split (''index=1,media=cdrom'' @ dv) = [''index=1,media=cdrom'' @ dv]"
    using dv by (intro split_one) (simp_all add: is_space_def)
  show "?l = ?r"
    unfolding split_cmd_template 1 2 3 4 5 by (simp add: argument_list_def sa_def dv_def)
qed

lemma split_cdrom: "split ''index=1,media=cdrom'' = [''index=1,media=cdrom'']"
  by (rule split_one) (simp_all add: is_space_def)

text \<open>
  What holds of the argument list for every configuration that passes the four checks,
  with no disc present and the short boot animation chosen, whatever the paths contain:
  the pieces of the command line in order, each path split at its white space; some
  argument ends with \<^verbatim>\<open>,short_animation\<close>; the last two arguments are \<^verbatim>\<open>-drive\<close> and
  \<^verbatim>\<open>index=1,media=cdrom\<close>.
\<close>

lemma start_args_short_animation:
  assumes "holds s c" and "\<not> opticalDiscPresent c" and "useShortBootAnimation c"
    and "check_path w (PStr (emulatorPath c)) = Inr ()"
    and "check_path w (PStr (bootRomPath c)) = Inr ()"
    and "check_path w (PStr (biosPath c)) = Inr ()"
    and "check_path w (PStr (hardDiskImagePath c)) = Inr ()"
  shows "\<exists>args.
     start self s w =
       (case Popen args w of
          Inl e \<Rightarrow> (Some e, self, w)
        | Inr (h, w') \<Rightarrow> (None, self\<lparr>p_handle := Some h\<rparr>, w')) \<and>
     args = split (emulatorPath c) @ [''-cpu'', ''pentium3'', ''-machine''] @
            split (''xbox,bootrom='' @ bootRomPath c @ '',short_animation'') @
            [''-m'', ''64'', ''-bios''] @ split (biosPath c) @
            [''-net'', ''nic,model=nvnet'', ''-net'', ''user'', ''-monitor'', ''stdio'',
             ''-drive''] @
            split (''file='' @ hardDiskImagePath c @ '',index=0,media=disk'') @
            [''-drive'', ''index=1,media=cdrom''] \<and>
     (\<exists>a\<in>set args. suffix '',short_animation'' a) \<and>
     last args = ''index=1,media=cdrom'' \<and> last (butlast args) = ''-drive'' \<and>
     (emulatorPath c \<noteq> [] \<and> biosPath c \<noteq> [] \<and> no_space (emulatorPath c) \<and>
      no_space (bootRomPath c) \<and> no_space (biosPath c) \<and> no_space (hardDiskImagePath c)
        \<longrightarrow> args = argument_list c)"
proof -
  let ?cmd = "cmd_template (emulatorPath c) (bootRomPath c) '',short_animation''
                (biosPath c) (hardDiskImagePath c) []"
  let ?boot = "split (''xbox,bootrom='' @ bootRomPath c @ '',short_animation'')"
  have cmd: "start_cmd s w = Inr ?cmd"
    using assms by (simp add: start_cmd_holds)
  have 1: "start self s w =
       (case Popen (split ?cmd) w of
          Inl e \<Rightarrow> (Some e, self, w)
        | Inr (h, w') \<Rightarrow> (None, self\<lparr>p_handle := Some h\<rparr>, w'))"
    using cmd by (rule start_spawns)
  have 2: "split ?cmd = split (emulatorPath c) @ [''-cpu'', ''pentium3'', ''-machine''] @
            ?boot @ [''-m'', ''64'', ''-bios''] @ split (biosPath c) @
            [''-net'', ''nic,model=nvnet'', ''-net'', ''user'', ''-monitor'', ''stdio'',
             ''-drive''] @
            split (''file='' @ hardDiskImagePath c @ '',index=0,media=disk'') @
            [''-drive'', ''index=1,media=cdrom'']"
    by (simp only: split_cmd_template append_Nil2 split_cdrom append.simps)
  have sfx: "?boot \<noteq> [] \<and> suffix '',short_animation'' (last ?boot)"
  proof -
    have "'',short_animation'' \<noteq> []" and "\<forall>ch\<in>set '',short_animation''. \<not> is_space ch"
      by (simp_all add: is_space_def)
    from split_last_suffix [OF this, of "''xbox,bootrom='' @ bootRomPath c"]
    show ?thesis by (simp only: append_assoc simp_thms)
  qed
  then have "last ?boot \<in> set ?boot"
    by (simp del: split.simps)
  then have mem: "last ?boot \<in> set (split ?cmd)"
    unfolding 2 by (simp del: split.simps)
  have 3: "\<exists>a\<in>set (split ?cmd). suffix '',short_animation'' a"
    using mem sfx by (intro bexI [of _ "last ?boot"]) simp_all
  have 4: "last (split ?cmd) = ''index=1,media=cdrom''"
    unfolding 2 by (simp del: split.simps)
  have 5: "last (butlast (split ?cmd)) = ''-drive''"
    unfolding 2 by (simp add: butlast_append del: split.simps)
  have 6: "emulatorPath c \<noteq> [] \<and> biosPath c \<noteq> [] \<and> no_space (emulatorPath c) \<and>
      no_space (bootRomPath c) \<and> no_space (biosPath c) \<and> no_space (hardDiskImagePath c)
      \<longrightarrow> split ?cmd = argument_list c"
    using split_args_faithful [of c] assms(2,3) by (simp del: split.simps)
  show ?thesis
  proof (intro exI [of _ "split ?cmd"] conjI)
    show "start self s w =
       (case Popen (split ?cmd) w of
          Inl e \<Rightarrow> (Some e, self, w)
        | Inr (h, w') \<Rightarrow> (None, self\<lparr>p_handle := Some h\<rparr>, w'))"
      by (rule 1)
    show "split ?cmd = split (emulatorPath c) @ [''-cpu'', ''pentium3'', ''-machine''] @
            ?boot @ [''-m'', ''64'', ''-bios''] @ split (biosPath c) @
            [''-net'', ''nic,model=nvnet'', ''-net'', ''user'', ''-monitor'', ''stdio'',
             ''-drive''] @
            split (''file='' @ hardDiskImagePath c @ '',index=0,media=disk'') @
            [''-drive'', ''index=1,media=cdrom'']"
      by (rule 2)
    show "\<exists>a\<in>set (split ?cmd). suffix '',short_animation'' a"
      by (rule 3)
    show "last (split ?cmd) = ''index=1,media=cdrom''"
      by (rule 4)
    show "last (butlast (split ?cmd)) = ''-drive''"
      by (rule 5)
    show "emulatorPath c \<noteq> [] \<and> biosPath c \<noteq> [] \<and> no_space (emulatorPath c) \<and>
      no_space (bootRomPath c) \<and> no_space (biosPath c) \<and> no_space (hardDiskImagePath c)
      \<longrightarrow> split ?cmd = argument_list c"
      by (rule 6)
  qed
qed

lemma split_path: "no_space p \<Longrightarrow> split p = (if p = [] then [] else [p])"
  by (simp add: split_one)

text \<open>
  C1 as stated fails on paths with white space. With a boot ROM path that contains a
  blank, the boot ROM option ends at the blank and \<^verbatim>\<open>,short_animation\<close> is attached to
  the next argument. With a hard disk path that contains blanks and option text, the
  argument list holds a cdrom drive with a file attached, although no disc is present.
\<close>

theorem C1_counterexample:
  "holds (store_of (defaults\<lparr>bootRomPath := ''/path/to/my mcpx.bin'',
                             opticalDiscPresent := False, useShortBootAnimation := True\<rparr>))
     (defaults\<lparr>bootRomPath := ''/path/to/my mcpx.bin'',
               opticalDiscPresent := False, useShortBootAnimation := True\<rparr>) \<and>
   check_path (placeholder_world\<lparr>files :=
       placeholder_files(PStr ''/path/to/my mcpx.bin'' \<mapsto> File ''mcpx'')\<rparr>)
     (PStr ''/path/to/xqemu'') = Inr () \<and>
   check_path (placeholder_world\<lparr>files :=
       placeholder_files(PStr ''/path/to/my mcpx.bin'' \<mapsto> File ''mcpx'')\<rparr>)
     (PStr ''/path/to/my mcpx.bin'') = Inr () \<and>
   check_path (placeholder_world\<lparr>files :=
       placeholder_files(PStr ''/path/to/my mcpx.bin'' \<mapsto> File ''mcpx'')\<rparr>)
     (PStr ''/path/to/flash.bin'') = Inr () \<and>
   check_path (placeholder_world\<lparr>files :=
       placeholder_files(PStr ''/path/to/my mcpx.bin'' \<mapsto> File ''mcpx'')\<rparr>)
     (PStr ''/path/to/hdd.img'') = Inr () \<and>
   start Xqemu_init
     (store_of (defaults\<lparr>bootRomPath := ''/path/to/my mcpx.bin'',
                          opticalDiscPresent := False, useShortBootAnimation := True\<rparr>))
     (placeholder_world\<lparr>files :=
        placeholder_files(PStr ''/path/to/my mcpx.bin'' \<mapsto> File ''mcpx'')\<rparr>) =
     (None, \<lparr>p_handle = Some 0\<rparr>,
      placeholder_world\<lparr>files :=
          placeholder_files(PStr ''/path/to/my mcpx.bin'' \<mapsto> File ''mcpx''),
        procs :=
        [\<lparr>argv = [''/path/to/xqemu'', ''-cpu'', ''pentium3'', ''-machine'',
                  ''xbox,bootrom=/path/to/my'', ''mcpx.bin,short_animation'', ''-m'', ''64'',
                  ''-bios'', ''/path/to/flash.bin'', ''-net'', ''nic,model=nvnet'', ''-net'',
                  ''user'', ''-monitor'', ''stdio'', ''-drive'',
                  ''file=/path/to/hdd.img,index=0,media=disk'', ''-drive'',
                  ''index=1,media=cdrom''],
          signalled = False\<rparr>]\<rparr>) \<and>
   holds (store_of (defaults\<lparr>hardDiskImagePath :=
                               ''hdd.img -drive index=1,media=cdrom,file=game.iso'',
                             opticalDiscPresent := False, useShortBootAnimation := True\<rparr>))
     (defaults\<lparr>hardDiskImagePath := ''hdd.img -drive index=1,media=cdrom,file=game.iso'',
               opticalDiscPresent := False, useShortBootAnimation := True\<rparr>) \<and>
   check_path (placeholder_world\<lparr>files :=
       placeholder_files(PStr ''hdd.img -drive index=1,media=cdrom,file=game.iso''
                           \<mapsto> File ''hdd'')\<rparr>)
     (PStr ''hdd.img -drive index=1,media=cdrom,file=game.iso'') = Inr () \<and>
   start Xqemu_init
     (store_of (defaults\<lparr>hardDiskImagePath :=
                            ''hdd.img -drive index=1,media=cdrom,file=game.iso'',
                          opticalDiscPresent := False, useShortBootAnimation := True\<rparr>))
     (placeholder_world\<lparr>files :=
        placeholder_files(PStr ''hdd.img -drive index=1,media=cdrom,file=game.iso''
                            \<mapsto> File ''hdd'')\<rparr>) =
     (None, \<lparr>p_handle = Some 0\<rparr>,
      placeholder_world\<lparr>files :=
          placeholder_files(PStr ''hdd.img -drive index=1,media=cdrom,file=game.iso''
                              \<mapsto> File ''hdd''),
        procs :=
        [\<lparr>argv = [''/path/to/xqemu'', ''-cpu'', ''pentium3'', ''-machine'',
                  ''xbox,bootrom=/path/to/mcpx.bin,short_animation'', ''-m'', ''64'',
                  ''-bios'', ''/path/to/flash.bin'', ''-net'', ''nic,model=nvnet'', ''-net'',
                  ''user'', ''-monitor'', ''stdio'', ''-drive'', ''file=hdd.img'', ''-drive'',
                  ''index=1,media=cdrom,file=game.iso,index=0,media=disk'', ''-drive'',
                  ''index=1,media=cdrom''],
          signalled = False\<rparr>]\<rparr>)"
proof -
  let ?a = "defaults\<lparr>bootRomPath := ''/path/to/my mcpx.bin'',
               opticalDiscPresent := False, useShortBootAnimation := True\<rparr>"
  let ?wa = "placeholder_world\<lparr>files :=
       placeholder_files(PStr ''/path/to/my mcpx.bin'' \<mapsto> File ''mcpx'')\<rparr>"
  let ?b = "defaults\<lparr>hardDiskImagePath := ''hdd.img -drive index=1,media=cdrom,file=game.iso'',
               opticalDiscPresent := False, useShortBootAnimation := True\<rparr>"
  let ?wb = "placeholder_world\<lparr>files :=
       placeholder_files(PStr ''hdd.img -drive index=1,media=cdrom,file=game.iso''
                           \<mapsto> File ''hdd'')\<rparr>"
  have ha: "holds (store_of ?a) ?a" and hb: "holds (store_of ?b) ?b"
    by (rule holds_store_of)+
  have ca: "check_path ?wa (PStr ''/path/to/xqemu'') = Inr ()"
    "check_path ?wa (PStr ''/path/to/my mcpx.bin'') = Inr ()"
    "check_path ?wa (PStr ''/path/to/flash.bin'') = Inr ()"
    "check_path ?wa (PStr ''/path/to/hdd.img'') = Inr ()"
    by (simp_all add: check_path_iff placeholder_files_def)
  have cb: "check_path ?wb (PStr ''/path/to/xqemu'') = Inr ()"
    "check_path ?wb (PStr ''/path/to/mcpx.bin'') = Inr ()"
    "check_path ?wb (PStr ''/path/to/flash.bin'') = Inr ()"
    "check_path ?wb (PStr ''hdd.img -drive index=1,media=cdrom,file=game.iso'') = Inr ()"
    by (simp_all add: check_path_iff placeholder_files_def)
  have sa: "start_cmd (store_of ?a) ?wa =
      Inr (cmd_template ''/path/to/xqemu'' ''/path/to/my mcpx.bin'' '',short_animation''
             ''/path/to/flash.bin'' ''/path/to/hdd.img'' [])"
    using start_cmd_holds [OF ha, of ?wa] ca by (simp add: defaults_def)
  have sb: "start_cmd (store_of ?b) ?wb =
      Inr (cmd_template ''/path/to/xqemu'' ''/path/to/mcpx.bin'' '',short_animation''
             ''/path/to/flash.bin'' ''hdd.img -drive index=1,media=cdrom,file=game.iso'' [])"
    using start_cmd_holds [OF hb, of ?wb] cb by (simp add: defaults_def)
  have pa: "split (cmd_template ''/path/to/xqemu'' ''/path/to/my mcpx.bin'' '',short_animation''
             ''/path/to/flash.bin'' ''/path/to/hdd.img'' []) =
      [''/path/to/xqemu'', ''-cpu'', ''pentium3'', ''-machine'',
       ''xbox,bootrom=/path/to/my'', ''mcpx.bin,short_animation'', ''-m'', ''64'',
       ''-bios'', ''/path/to/flash.bin'', ''-net'', ''nic,model=nvnet'', ''-net'',
       ''user'', ''-monitor'', ''stdio'', ''-drive'',
       ''file=/path/to/hdd.img,index=0,media=disk'', ''-drive'', ''index=1,media=cdrom'']"
    by (simp add: split_cmd_template is_space_def)
  have pb: "split (cmd_template ''/path/to/xqemu'' ''/path/to/mcpx.bin'' '',short_animation''
             ''/path/to/flash.bin'' ''hdd.img -drive index=1,media=cdrom,file=game.iso'' []) =
      [''/path/to/xqemu'', ''-cpu'', ''pentium3'', ''-machine'',
       ''xbox,bootrom=/path/to/mcpx.bin,short_animation'', ''-m'', ''64'',
       ''-bios'', ''/path/to/flash.bin'', ''-net'', ''nic,model=nvnet'', ''-net'',
       ''user'', ''-monitor'', ''stdio'', ''-drive'', ''file=hdd.img'', ''-drive'',
       ''index=1,media=cdrom,file=game.iso,index=0,media=disk'', ''-drive'',
       ''index=1,media=cdrom'']"
    by (simp add: split_cmd_template is_space_def)
  have ta: "start Xqemu_init (store_of ?a) ?wa =
     (None, \<lparr>p_handle = Some 0\<rparr>,
      placeholder_world\<lparr>files :=
          placeholder_files(PStr ''/path/to/my mcpx.bin'' \<mapsto> File ''mcpx''),
        procs :=
        [\<lparr>argv = [''/path/to/xqemu'', ''-cpu'', ''pentium3'', ''-machine'',
                  ''xbox,bootrom=/path/to/my'', ''mcpx.bin,short_animation'', ''-m'', ''64'',
                  ''-bios'', ''/path/to/flash.bin'', ''-net'', ''nic,model=nvnet'', ''-net'',
                  ''user'', ''-monitor'', ''stdio'', ''-drive'',
                  ''file=/path/to/hdd.img,index=0,media=disk'', ''-drive'',
                  ''index=1,media=cdrom''],
          signalled = False\<rparr>]\<rparr>)"
    using sa by (simp add: start_def pa Popen_def placeholder_world_def Xqemu_init_def)
  have tb: "start Xqemu_init (store_of ?b) ?wb =
     (None, \<lparr>p_handle = Some 0\<rparr>,
      placeholder_world\<lparr>files :=
          placeholder_files(PStr ''hdd.img -drive index=1,media=cdrom,file=game.iso''
                              \<mapsto> File ''hdd''),
        procs :=
        [\<lparr>argv = [''/path/to/xqemu'', ''-cpu'', ''pentium3'', ''-machine'',
                  ''xbox,bootrom=/path/to/mcpx.bin,short_animation'', ''-m'', ''64'',
                  ''-bios'', ''/path/to/flash.bin'', ''-net'', ''nic,model=nvnet'', ''-net'',
                  ''user'', ''-monitor'', ''stdio'', ''-drive'', ''file=hdd.img'', ''-drive'',
                  ''index=1,media=cdrom,file=game.iso,index=0,media=disk'', ''-drive'',
                  ''index=1,media=cdrom''],
          signalled = False\<rparr>]\<rparr>)"
    using sb by (simp add: start_def pb Popen_def placeholder_world_def Xqemu_init_def)
  from ha ca ta hb cb(4) tb show ?thesis
    by (intro conjI)
qed

text \<open>
  C1, amended: for a configuration whose four required paths pass the check and contain
  no white space, with no disc present and the short boot animation chosen, \<^verbatim>\<open>start\<close>
  reaches the spawn with exactly this argument list: the emulator path, the fixed CPU and
  machine options with \<^verbatim>\<open>xbox,bootrom=\<close>, the boot ROM path and \<^verbatim>\<open>,short_animation\<close> in
  one argument, the memory size, the BIOS path, the network and monitor options, the hard
  disk as drive 0, and last \<^verbatim>\<open>-drive index=1,media=cdrom\<close> with no file attached. No other
  argument is in the list, so there is no disc file argument. (An empty emulator or BIOS
  path contributes no argument.)
\<close>

theorem C1_arguments_without_white_space:
  assumes "holds s c" and "\<not> opticalDiscPresent c" and "useShortBootAnimation c"
    and "check_path w (PStr (emulatorPath c)) = Inr ()"
    and "check_path w (PStr (bootRomPath c)) = Inr ()"
    and "check_path w (PStr (biosPath c)) = Inr ()"
    and "check_path w (PStr (hardDiskImagePath c)) = Inr ()"
    and "no_space (emulatorPath c)" and "no_space (bootRomPath c)"
    and "no_space (biosPath c)" and "no_space (hardDiskImagePath c)"
  shows "\<exists>args.
     start self s w =
       (case Popen args w of
          Inl e \<Rightarrow> (Some e, self, w)
        | Inr (h, w') \<Rightarrow> (None, self\<lparr>p_handle := Some h\<rparr>, w')) \<and>
     args = (if emulatorPath c = [] then [] else [emulatorPath c]) @
            [''-cpu'', ''pentium3'', ''-machine'',
             ''xbox,bootrom='' @ bootRomPath c @ '',short_animation'',
             ''-m'', ''64'', ''-bios''] @
            (if biosPath c = [] then [] else [biosPath c]) @
            [''-net'', ''nic,model=nvnet'', ''-net'', ''user'', ''-monitor'', ''stdio'',
             ''-drive'', ''file='' @ hardDiskImagePath c @ '',index=0,media=disk'',
             ''-drive'', ''index=1,media=cdrom''] \<and>
     ''xbox,bootrom='' @ bootRomPath c @ '',short_animation'' \<in> set args \<and>
     last args = ''index=1,media=cdrom'' \<and> last (butlast args) = ''-drive'' \<and>
     (emulatorPath c \<noteq> [] \<and> biosPath c \<noteq> [] \<longrightarrow> args = argument_list c)"
proof -
  let ?boot = "''xbox,bootrom='' @ bootRomPath c @ '',short_animation''"
  let ?disk = "''file='' @ hardDiskImagePath c @ '',index=0,media=disk''"
  let ?args = "(if emulatorPath c = [] then [] else [emulatorPath c]) @
            [''-cpu'', ''pentium3'', ''-machine'', ?boot, ''-m'', ''64'', ''-bios''] @
            (if biosPath c = [] then [] else [biosPath c]) @
            [''-net'', ''nic,model=nvnet'', ''-net'', ''user'', ''-monitor'', ''stdio'',
             ''-drive'', ?disk, ''-drive'', ''index=1,media=cdrom'']"
  from start_args_short_animation [OF assms(1-7), of self]
  obtain args where s: "start self s w =
       (case Popen args w of
          Inl e \<Rightarrow> (Some e, self, w)
        | Inr (h, w') \<Rightarrow> (None, self\<lparr>p_handle := Some h\<rparr>, w'))"
    and a: "args = split (emulatorPath c) @ [''-cpu'', ''pentium3'', ''-machine''] @
            split ?boot @ [''-m'', ''64'', ''-bios''] @ split (biosPath c) @
            [''-net'', ''nic,model=nvnet'', ''-net'', ''user'', ''-monitor'', ''stdio'',
             ''-drive''] @
            split ?disk @ [''-drive'', ''index=1,media=cdrom'']"
    and l: "last args = ''index=1,media=cdrom''" "last (butlast args) = ''-drive''"
    and f: "emulatorPath c \<noteq> [] \<and> biosPath c \<noteq> [] \<and> no_space (emulatorPath c) \<and>
      no_space (bootRomPath c) \<and> no_space (biosPath c) \<and> no_space (hardDiskImagePath c)
        \<longrightarrow> args = argument_list c"
    by (elim exE conjE) (rule that, assumption+)
  have b: "split ?boot = [?boot]"
    using assms(9) by (intro split_one) (simp_all add: is_space_def)
  have d: "split ?disk = [?disk]"
    using assms(11) by (intro split_one) (simp_all add: is_space_def)
  have e: "args = ?args"
    unfolding a b d split_path [OF assms(8)] split_path [OF assms(10)] by simp
  have m: "?boot \<in> set args"
    unfolding e by simp
  have g: "emulatorPath c \<noteq> [] \<and> biosPath c \<noteq> [] \<longrightarrow> args = argument_list c"
    using f assms(8-11) by blast
  show ?thesis
  proof (intro exI [of _ args] conjI)
    show "start self s w =
       (case Popen args w of
          Inl e \<Rightarrow> (Some e, self, w)
        | Inr (h, w') \<Rightarrow> (None, self\<lparr>p_handle := Some h\<rparr>, w'))"
      by (rule s)
    show "args = ?args"
      by (rule e)
    show "?boot \<in> set args"
      by (rule m)
    show "last args = ''index=1,media=cdrom''" and "last (butlast args) = ''-drive''"
      by (rule l)+
    show "emulatorPath c \<noteq> [] \<and> biosPath c \<noteq> [] \<longrightarrow> args = argument_list c"
      by (rule g)
  qed
qed

theorem C1_witness:
  "holds (store_of (defaults\<lparr>opticalDiscPresent := False, useShortBootAnimation := True\<rparr>))
     (defaults\<lparr>opticalDiscPresent := False, useShortBootAnimation := True\<rparr>) \<and>
   check_path placeholder_world (PStr ''/path/to/xqemu'') = Inr () \<and>
   check_path placeholder_world (PStr ''/path/to/mcpx.bin'') = Inr () \<and>
   check_path placeholder_world (PStr ''/path/to/flash.bin'') = Inr () \<and>
   check_path placeholder_world (PStr ''/path/to/hdd.img'') = Inr () \<and>
   no_space ''/path/to/xqemu'' \<and> no_space ''/path/to/mcpx.bin'' \<and>
   no_space ''/path/to/flash.bin'' \<and> no_space ''/path/to/hdd.img'' \<and>
   start Xqemu_init
     (store_of (defaults\<lparr>opticalDiscPresent := False, useShortBootAnimation := True\<rparr>))
     placeholder_world =
     (None, \<lparr>p_handle = Some 0\<rparr>,
      placeholder_world\<lparr>procs :=
        [\<lparr>argv = [''/path/to/xqemu'', ''-cpu'', ''pentium3'', ''-machine'',
                  ''xbox,bootrom=/path/to/mcpx.bin,short_animation'', ''-m'', ''64'', ''-bios'',
                  ''/path/to/flash.bin'', ''-net'', ''nic,model=nvnet'', ''-net'', ''user'',
                  ''-monitor'', ''stdio'', ''-drive'',
                  ''file=/path/to/hdd.img,index=0,media=disk'', ''-drive'',
                  ''index=1,media=cdrom''],
          signalled = False\<rparr>]\<rparr>)"
proof -
  let ?c = "defaults\<lparr>opticalDiscPresent := False, useShortBootAnimation := True\<rparr>"
  have h: "holds (store_of ?c) ?c"
    by (rule holds_store_of)
  have p: "\<not> opticalDiscPresent ?c" and a: "useShortBootAnimation ?c"
    by simp_all
  have c1: "check_path placeholder_world (PStr (emulatorPath ?c)) = Inr ()"
    and c2: "check_path placeholder_world (PStr (bootRomPath ?c)) = Inr ()"
    and c3: "check_path placeholder_world (PStr (biosPath ?c)) = Inr ()"
    and c4: "check_path placeholder_world (PStr (hardDiskImagePath ?c)) = Inr ()"
    by (simp_all add: defaults_def placeholder_checks)
  have n1: "no_space (emulatorPath ?c)" and n2: "no_space (bootRomPath ?c)"
    and n3: "no_space (biosPath ?c)" and n4: "no_space (hardDiskImagePath ?c)"
    by (simp_all add: defaults_def is_space_def)
  have ns: "no_space ''/path/to/xqemu'' \<and> no_space ''/path/to/mcpx.bin'' \<and>
      no_space ''/path/to/flash.bin'' \<and> no_space ''/path/to/hdd.img''"
    by (simp add: is_space_def)
  from C1_arguments_without_white_space [OF h p a c1 c2 c3 c4 n1 n2 n3 n4, of Xqemu_init]
  obtain args where s: "start Xqemu_init (store_of ?c) placeholder_world =
       (case Popen args placeholder_world of
          Inl e \<Rightarrow> (Some e, Xqemu_init, placeholder_world)
        | Inr (h, w') \<Rightarrow> (None, Xqemu_init\<lparr>p_handle := Some h\<rparr>, w'))"
    and f: "emulatorPath ?c \<noteq> [] \<and> biosPath ?c \<noteq> [] \<longrightarrow> args = argument_list ?c"
    by (elim exE conjE) (rule that, assumption+)
  have "emulatorPath ?c \<noteq> [] \<and> biosPath ?c \<noteq> []"
    by (simp add: defaults_def)
  with f have "args = argument_list ?c"
    by (rule mp)
  with s have "start Xqemu_init (store_of ?c) placeholder_world =
       (case Popen (argument_list ?c) placeholder_world of
          Inl e \<Rightarrow> (Some e, Xqemu_init, placeholder_world)
        | Inr (h, w') \<Rightarrow> (None, Xqemu_init\<lparr>p_handle := Some h\<rparr>, w'))"
    by (simp only:)
  then have "start Xqemu_init (store_of ?c) placeholder_world =
     (None, \<lparr>p_handle = Some 0\<rparr>,
      placeholder_world\<lparr>procs :=
        [\<lparr>argv = [''/path/to/xqemu'', ''-cpu'', ''pentium3'', ''-machine'',
                  ''xbox,bootrom=/path/to/mcpx.bin,short_animation'', ''-m'', ''64'', ''-bios'',
                  ''/path/to/flash.bin'', ''-net'', ''nic,model=nvnet'', ''-net'', ''user'',
                  ''-monitor'', ''stdio'', ''-drive'',
                  ''file=/path/to/hdd.img,index=0,media=disk'', ''-drive'',
                  ''index=1,media=cdrom''],
          signalled = False\<rparr>]\<rparr>)"
    by (simp add: argument_list_def defaults_def Popen_def placeholder_world_def Xqemu_init_def)
  with h placeholder_checks(1-4) ns show ?thesis
    by (intro conjI) (simp_all only: conj_imp_eq_imp_imp simp_thms)
qed

text \<open>
  C9: the command line is one string that is split at white space. For a configuration
  that passes the checks the argument list handed to \<^verbatim>\<open>Popen\<close> is the one of the
  specification exactly when no interpolated path contains white space (and the two paths
  that are arguments of their own are not empty); no argument ever contains white space,
  so a path with a space in it is spread over several arguments.
\<close>

theorem C9_arguments_split_on_white_space:
  assumes "holds s c" and "start_cmd s w = Inr cmd"
  shows "start self s w =
           (case Popen (split cmd) w of
              Inl e \<Rightarrow> (Some e, self, w)
            | Inr (h, w') \<Rightarrow> (None, self\<lparr>p_handle := Some h\<rparr>, w')) \<and>
         (\<forall>a\<in>set (split cmd). a \<noteq> [] \<and> no_space a) \<and>
         ((split cmd = argument_list c) =
            (emulatorPath c \<noteq> [] \<and> biosPath c \<noteq> [] \<and> no_space (emulatorPath c) \<and>
             no_space (bootRomPath c) \<and> no_space (biosPath c) \<and>
             no_space (hardDiskImagePath c) \<and>
             (opticalDiscPresent c \<longrightarrow> no_space (opticalDiscPath c))))"
proof (intro conjI)
  show "start self s w =
           (case Popen (split cmd) w of
              Inl e \<Rightarrow> (Some e, self, w)
            | Inr (h, w') \<Rightarrow> (None, self\<lparr>p_handle := Some h\<rparr>, w'))"
    using assms(2) by (rule start_spawns)
  show "\<forall>a\<in>set (split cmd). a \<noteq> [] \<and> no_space a"
    using split_elem by blast
  show "(split cmd = argument_list c) =
            (emulatorPath c \<noteq> [] \<and> biosPath c \<noteq> [] \<and> no_space (emulatorPath c) \<and>
             no_space (bootRomPath c) \<and> no_space (biosPath c) \<and>
             no_space (hardDiskImagePath c) \<and>
             (opticalDiscPresent c \<longrightarrow> no_space (opticalDiscPath c)))"
    using split_args_faithful [of c] start_cmd_Inr [OF assms] by simp
qed

theorem C9_witness:
  "holds (store_of (defaults\<lparr>hardDiskImagePath := ''/path/to/my disk.img'',
                              opticalDiscPresent := False\<rparr>))
     (defaults\<lparr>hardDiskImagePath := ''/path/to/my disk.img'', opticalDiscPresent := False\<rparr>) \<and>
   check_path placeholder_world (PStr ''/path/to/xqemu'') = Inr () \<and>
   check_path placeholder_world (PStr ''/path/to/mcpx.bin'') = Inr () \<and>
   check_path placeholder_world (PStr ''/path/to/flash.bin'') = Inr () \<and>
   check_path placeholder_world (PStr ''/path/to/my disk.img'') = Inr () \<and>
   ''file=/path/to/my disk.img,index=0,media=disk''
     \<in> set (argument_list (defaults\<lparr>hardDiskImagePath := ''/path/to/my disk.img'',
                                       opticalDiscPresent := False\<rparr>)) \<and>
   start Xqemu_init
     (store_of (defaults\<lparr>hardDiskImagePath := ''/path/to/my disk.img'',
                          opticalDiscPresent := False\<rparr>))
     placeholder_world =
     (None, \<lparr>p_handle = Some 0\<rparr>,
      placeholder_world\<lparr>procs :=
        [\<lparr>argv = [''/path/to/xqemu'', ''-cpu'', ''pentium3'', ''-machine'',
                  ''xbox,bootrom=/path/to/mcpx.bin'', ''-m'', ''64'', ''-bios'',
                  ''/path/to/flash.bin'', ''-net'', ''nic,model=nvnet'', ''-net'', ''user'',
                  ''-monitor'', ''stdio'', ''-drive'',
                  ''file=/path/to/my'', ''disk.img,index=0,media=disk'', ''-drive'',
                  ''index=1,media=cdrom''],
          signalled = False\<rparr>]\<rparr>) \<and>
   split (cmd_template ''/path/to/xqemu'' ''/path/to/mcpx.bin'' [] ''/path/to/flash.bin''
            ''/path/to/my disk.img'' [])
     \<noteq> argument_list (defaults\<lparr>hardDiskImagePath := ''/path/to/my disk.img'',
                                  opticalDiscPresent := False\<rparr>)"
proof -
  let ?c = "defaults\<lparr>hardDiskImagePath := ''/path/to/my disk.img'', opticalDiscPresent := False\<rparr>"
  let ?cmd = "cmd_template ''/path/to/xqemu'' ''/path/to/mcpx.bin'' [] ''/path/to/flash.bin''
            ''/path/to/my disk.img'' []"
  have h: "holds (store_of ?c) ?c"
    by (rule holds_store_of)
  have sc: "start_cmd (store_of ?c) placeholder_world = Inr ?cmd"
    using start_cmd_holds [OF h, of placeholder_world]
    by (simp add: defaults_def placeholder_checks)
  note t = C9_arguments_split_on_white_space [OF h sc, of Xqemu_init]
  have "\<not> no_space (hardDiskImagePath ?c)"
    by (simp add: is_space_def)
  with t [THEN conjunct2, THEN conjunct2] have ne: "split ?cmd \<noteq> argument_list ?c"
    by (simp only: simp_thms)
  have sp: "split ?cmd =
     [''/path/to/xqemu'', ''-cpu'', ''pentium3'', ''-machine'',
      ''xbox,bootrom=/path/to/mcpx.bin'', ''-m'', ''64'', ''-bios'',
      ''/path/to/flash.bin'', ''-net'', ''nic,model=nvnet'', ''-net'', ''user'',
      ''-monitor'', ''stdio'', ''-drive'',
      ''file=/path/to/my'', ''disk.img,index=0,media=disk'', ''-drive'',
      ''index=1,media=cdrom'']"
    by (simp add: split_cmd_template is_space_def)
  from t have "start Xqemu_init (store_of ?c) placeholder_world =
       (case Popen (split ?cmd) placeholder_world of
          Inl e \<Rightarrow> (Some e, Xqemu_init, placeholder_world)
        | Inr (h, w') \<Rightarrow> (None, Xqemu_init\<lparr>p_handle := Some h\<rparr>, w'))"
    by (rule conjunct1)
  then have st: "start Xqemu_init (store_of ?c) placeholder_world =
     (None, \<lparr>p_handle = Some 0\<rparr>,
      placeholder_world\<lparr>procs :=
        [\<lparr>argv = [''/path/to/xqemu'', ''-cpu'', ''pentium3'', ''-machine'',
                  ''xbox,bootrom=/path/to/mcpx.bin'', ''-m'', ''64'', ''-bios'',
                  ''/path/to/flash.bin'', ''-net'', ''nic,model=nvnet'', ''-net'', ''user'',
                  ''-monitor'', ''stdio'', ''-drive'',
                  ''file=/path/to/my'', ''disk.img,index=0,media=disk'', ''-drive'',
                  ''index=1,media=cdrom''],
          signalled = False\<rparr>]\<rparr>)"
    unfolding sp by (simp add: Popen_def placeholder_world_def Xqemu_init_def)
  have m: "''file=/path/to/my disk.img,index=0,media=disk'' \<in> set (argument_list ?c)"
    by (simp add: argument_list_def)
  from h placeholder_checks m st ne show ?thesis
    by (intro conjI)
qed


section \<open>Starting while a process is retained\<close>

lemma busy_checks:
  "check_path (busy_world\<lparr>launchable := l\<rparr>) (PStr ''/path/to/xqemu'') = Inr ()"
  "check_path (busy_world\<lparr>launchable := l\<rparr>) (PStr ''/path/to/mcpx.bin'') = Inr ()"
  "check_path (busy_world\<lparr>launchable := l\<rparr>) (PStr ''/path/to/flash.bin'') = Inr ()"
  "check_path (busy_world\<lparr>launchable := l\<rparr>) (PStr ''/path/to/hdd.img'') = Inr ()"
  by (simp_all add: check_path_iff busy_world_def placeholder_world_def placeholder_files_def)

lemma busy_start_cmd:
  "start_cmd (store_of (defaults\<lparr>opticalDiscPresent := False\<rparr>)) (busy_world\<lparr>launchable := l\<rparr>)
     = Inr (cmd_template ''/path/to/xqemu'' ''/path/to/mcpx.bin'' [] ''/path/to/flash.bin''
              ''/path/to/hdd.img'' [])"
  using start_cmd_holds [OF holds_store_of [of "defaults\<lparr>opticalDiscPresent := False\<rparr>"],
      of "busy_world\<lparr>launchable := l\<rparr>"]
  by (simp add: defaults_def busy_checks)

text \<open>
  C6 as stated fails: with a handle retained and every path check passed, the system may
  still refuse to launch the executable. Then \<^verbatim>\<open>Popen\<close> raises, no second process
  exists, and the controller keeps the old handle.
\<close>

theorem C6_counterexample:
  "p_handle \<lparr>p_handle = Some 0\<rparr> = Some 0 \<and>
   0 < length (procs (busy_world\<lparr>launchable := (\<lambda>_. False)\<rparr>)) \<and>
   start_cmd (store_of (defaults\<lparr>opticalDiscPresent := False\<rparr>))
       (busy_world\<lparr>launchable := (\<lambda>_. False)\<rparr>)
     = Inr (cmd_template ''/path/to/xqemu'' ''/path/to/mcpx.bin'' [] ''/path/to/flash.bin''
              ''/path/to/hdd.img'' []) \<and>
   start \<lparr>p_handle = Some 0\<rparr> (store_of (defaults\<lparr>opticalDiscPresent := False\<rparr>))
       (busy_world\<lparr>launchable := (\<lambda>_. False)\<rparr>)
     = (Some OSError, \<lparr>p_handle = Some 0\<rparr>, busy_world\<lparr>launchable := (\<lambda>_. False)\<rparr>)"
proof -
  have "start \<lparr>p_handle = Some 0\<rparr> (store_of (defaults\<lparr>opticalDiscPresent := False\<rparr>))
       (busy_world\<lparr>launchable := (\<lambda>_. False)\<rparr>)
     = (Some OSError, \<lparr>p_handle = Some 0\<rparr>, busy_world\<lparr>launchable := (\<lambda>_. False)\<rparr>)"
    by (simp add: start_def busy_start_cmd placeholder_cmd Popen_def)
  moreover have "0 < length (procs (busy_world\<lparr>launchable := (\<lambda>_. False)\<rparr>))"
    by (simp add: busy_world_def)
  moreover have "p_handle \<lparr>p_handle = Some 0\<rparr> = Some 0"
    by simp
  ultimately show ?thesis
    using busy_start_cmd [of "\<lambda>_. False"] by (simp only: simp_thms)
qed


text \<open>
  C6, amended: when \<^verbatim>\<open>start\<close> is called while a handle is retained, the path checks
  pass and the system launches the executable, the call is not rejected. A second process
  is appended to the process table, the retained handle is overwritten with the new one,
  and the first process is untouched. A following \<^verbatim>\<open>stop\<close> signals the second process
  only and leaves the controller without a handle, so that no later \<^verbatim>\<open>stop\<close> reaches the
  first process.
\<close>

theorem C6_start_while_active:
  assumes "p_handle self = Some h" and "h < length (procs w)"
    and "start_cmd s w = Inr cmd" and "split cmd = prog # rest" and "launchable w prog"
  shows "\<exists>self' w'. start self s w = (None, self', w') \<and>
           p_handle self' = Some (length (procs w)) \<and> length (procs w) \<noteq> h \<and>
           procs w' = procs w @ [\<lparr>argv = split cmd, signalled = False\<rparr>] \<and>
           procs w' ! h = procs w ! h \<and>
           (\<exists>self'' w''. stop self' w' = (self'', w'') \<and> p_handle self'' = None \<and>
              length (procs w'') = length (procs w') \<and>
              procs w'' ! h = procs w ! h \<and>
              signalled (procs w'' ! length (procs w)) \<and>
              (\<forall>v. stop self'' v = (self'', v)))"
proof -
  let ?n = "length (procs w)"
  let ?w' = "w\<lparr>procs := procs w @ [\<lparr>argv = split cmd, signalled = False\<rparr>]\<rparr>"
  let ?self' = "self\<lparr>p_handle := Some ?n\<rparr>"
  have s: "start self s w = (None, ?self', ?w')"
    using assms by (simp add: start_def Popen_def)
  have t: "stop ?self' ?w' = (?self'\<lparr>p_handle := None\<rparr>, terminate ?n ?w')"
    by (simp add: stop_def)
  have u: "procs (terminate ?n ?w') ! h = procs w ! h"
    using assms(2) by (simp add: terminate_def nth_append)
  have v: "signalled (procs (terminate ?n ?w') ! ?n)"
    by (simp add: terminate_def)
  have l: "length (procs (terminate ?n ?w')) = length (procs ?w')"
    by (simp add: terminate_def)
  have i: "stop (?self'\<lparr>p_handle := None\<rparr>) x = (?self'\<lparr>p_handle := None\<rparr>, x)" for x
    by (simp add: stop_def)
  have n: "procs ?w' ! h = procs w ! h"
    using assms(2) by (simp add: nth_append)
  have inner: "\<exists>self'' w''. stop ?self' ?w' = (self'', w'') \<and> p_handle self'' = None \<and>
              length (procs w'') = length (procs ?w') \<and>
              procs w'' ! h = procs w ! h \<and>
              signalled (procs w'' ! length (procs w)) \<and>
              (\<forall>v. stop self'' v = (self'', v))"
    using t u v l i
    by (intro exI [of _ "?self'\<lparr>p_handle := None\<rparr>"] exI [of _ "terminate ?n ?w'"]) simp
  show ?thesis
    using s n inner assms(2)
    by (intro exI [of _ ?self'] exI [of _ ?w']) simp
qed

theorem C6_witness:
  "p_handle \<lparr>p_handle = Some 0\<rparr> = Some 0 \<and> 0 < length (procs busy_world) \<and>
   start_cmd (store_of (defaults\<lparr>opticalDiscPresent := False\<rparr>)) busy_world
     = Inr (cmd_template ''/path/to/xqemu'' ''/path/to/mcpx.bin'' [] ''/path/to/flash.bin''
              ''/path/to/hdd.img'' []) \<and>
   launchable busy_world ''/path/to/xqemu'' \<and>
   (\<exists>self' w'. start \<lparr>p_handle = Some 0\<rparr> (store_of (defaults\<lparr>opticalDiscPresent := False\<rparr>))
                  busy_world = (None, self', w') \<and>
      p_handle self' = Some 1 \<and> length (procs w') = 2 \<and>
      procs w' ! 0 = \<lparr>argv = [''/path/to/xqemu''], signalled = False\<rparr> \<and>
      (\<exists>self'' w''. stop self' w' = (self'', w'') \<and> p_handle self'' = None \<and>
         procs w'' ! 0 = \<lparr>argv = [''/path/to/xqemu''], signalled = False\<rparr> \<and>
         signalled (procs w'' ! 1)))"
proof -
  let ?s = "store_of (defaults\<lparr>opticalDiscPresent := False\<rparr>)"
  let ?cmd = "cmd_template ''/path/to/xqemu'' ''/path/to/mcpx.bin'' [] ''/path/to/flash.bin''
              ''/path/to/hdd.img'' []"
  have a: "p_handle \<lparr>p_handle = Some 0\<rparr> = Some 0"
    by simp
  have b: "0 < length (procs busy_world)"
    by (simp add: busy_world_def)
  have c: "start_cmd ?s busy_world = Inr ?cmd"
    using busy_start_cmd [of "launchable busy_world"] by simp
  have d: "split ?cmd = ''/path/to/xqemu'' # tl (split ?cmd)"
    by (simp add: placeholder_cmd)
  have e: "launchable busy_world ''/path/to/xqemu''"
    by (simp add: busy_world_def placeholder_world_def)
  have l: "length (procs busy_world) = 1"
    and z: "procs busy_world ! 0 = \<lparr>argv = [''/path/to/xqemu''], signalled = False\<rparr>"
    by (simp_all add: busy_world_def)
  from C6_start_while_active [OF a b c d e]
  obtain self' w' self'' w'' where
    "start \<lparr>p_handle = Some 0\<rparr> ?s busy_world = (None, self', w')"
    "p_handle self' = Some (length (procs busy_world))"
    "procs w' = procs busy_world @ [\<lparr>argv = split ?cmd, signalled = False\<rparr>]"
    "procs w' ! 0 = procs busy_world ! 0"
    "stop self' w' = (self'', w'')" "p_handle self'' = None"
    "procs w'' ! 0 = procs busy_world ! 0"
    "signalled (procs w'' ! length (procs busy_world))"
    by (elim exE conjE) (rule that, assumption+)
  then have "\<exists>self' w'. start \<lparr>p_handle = Some 0\<rparr> ?s busy_world = (None, self', w') \<and>
      p_handle self' = Some 1 \<and> length (procs w') = 2 \<and>
      procs w' ! 0 = \<lparr>argv = [''/path/to/xqemu''], signalled = False\<rparr> \<and>
      (\<exists>self'' w''. stop self' w' = (self'', w'') \<and> p_handle self'' = None \<and>
         procs w'' ! 0 = \<lparr>argv = [''/path/to/xqemu''], signalled = False\<rparr> \<and>
         signalled (procs w'' ! 1))"
    using l z by (intro exI [of _ self'] exI [of _ w'] exI [of _ self''] exI [of _ w'']) simp
  with a b c e show ?thesis
    by (intro conjI)
qed

end
